theory Spec2Isabelle
  imports Main
begin

section \<open>Data model\<close>

text \<open>
  The application component \<open>App\<close> (source: \<open>src/unnamed/part_001\<close>, lines 39-730) keeps
  its state in React state variables and persists the translation history through
  \<open>AsyncStorage\<close>. The model is a state-passing embedding: every handler of the component
  is a function from the state before the call to the state after it. Everything the
  handlers obtain from outside (the answers of the generative model, the wall clock,
  the audio file, the success of a storage operation) is read from an environment of
  oracles, indexed by how often the handler has asked so far.

  A string is a list of characters, and a character stands for a code unit below 256
  (ASCII and the Latin-1 supplement): texts with other code units are outside the model.
  On these texts \<open>trim\<close> and \<open>toLowerCase\<close> are the functions of JavaScript: the white
  space is \<open>U+0009\<close> to \<open>U+000D\<close>, \<open>U+0020\<close> and \<open>U+00A0\<close>, and the letters with a
  lower case are \<open>A-Z\<close> and \<open>U+00C0\<close> to \<open>U+00DE\<close> without \<open>U+00D7\<close>, each 32 below its
  lower case. \<open>JSON.parse (JSON.stringify h)\<close> is taken to be \<open>h\<close> for a list of history
  items, so the store maps a key to the list itself.
\<close>

text \<open>\<open>interface TranslationHistoryItem\<close> (lines 16-25); \<open>id\<close> and \<open>timestamp\<close> carry the
  suffix \<open>_h\<close>.\<close>

record TranslationHistoryItem =
  id_h :: string
  transcribedText :: string
  translatedText :: string
  culturalTips :: "string list"
  sourceLang :: string
  targetLang :: string
  timestamp_h :: nat
  isFavorite :: bool

datatype speaker = A | B

text \<open>An entry of \<open>conversationHistory\<close> (lines 55-61); the fields \<open>id\<close>, \<open>text\<close> and
  \<open>timestamp\<close> carry the suffix \<open>_c\<close>.\<close>

record ConversationItem =
  id_c :: string
  text_c :: string
  translation :: string
  speaker :: speaker
  timestamp_c :: nat

text \<open>An \<open>Audio.Recording\<close>: whether \<open>stopAndUnloadAsync\<close> resolves, and what \<open>getURI\<close>
  returns (\<open>None\<close> for \<open>null\<close>).\<close>

datatype Recording = Recording (stopAndUnloadAsync: bool) (getURI: "string option")

text \<open>The response of \<open>fetch uri\<close>, read as a blob and converted to base 64.\<close>

record Media =
  contentType :: "string option"
  base64Data :: string

text \<open>The argument of \<open>model.generateContent\<close>: a prompt, or a prompt with inline data
  (MIME type and base-64 data).\<close>

datatype request = Prompt string | PromptWithData string string string

text \<open>
  The environment. \<open>generateContent n\<close> is \<open>response.text ()\<close> of the \<open>n\<close>-th call to the
  generative model (\<open>None\<close>: the call is rejected or the response has no text);
  \<open>now n\<close> is the \<open>n\<close>-th reading of \<open>Date.now ()\<close>; \<open>fetch uri\<close> is the audio behind a recording's
  URI (\<open>None\<close>: the fetch or the conversion fails); \<open>storage_ok n\<close> tells whether the \<open>n\<close>-th
  \<open>AsyncStorage\<close> operation resolves; \<open>permissionGranted\<close> and \<open>createAsync\<close> are what the
  microphone permission request and \<open>Audio.Recording.createAsync\<close> answer.
\<close>

record env =
  generateContent :: "nat \<Rightarrow> string option"
  now :: "nat \<Rightarrow> nat"
  fetch :: "string \<Rightarrow> Media option"
  storage_ok :: "nat \<Rightarrow> bool"
  permissionGranted :: bool
  createAsync :: "Recording option"

text \<open>
  The state: the state variables of \<open>App\<close> (lines 40-66; those that share a name with a
  field of a history item carry the suffix \<open>_st\<close>), followed by the world the handlers act
  on: the \<open>AsyncStorage\<close> key-value store, the number of storage operations so far, the
  requests sent to the generative model so far, the number of clock readings so far, the
  alerts shown (title and message) and the speech scheduled (text and language).
\<close>

record app_state =
  recording :: "Recording option"
  transcribedText_st :: string
  translatedText_st :: string
  culturalTips_st :: "string list"
  isLoading :: bool
  sourceLang_st :: string
  targetLang_st :: string
  isOffline :: bool
  history :: "TranslationHistoryItem list"
  textToTranslate :: string
  conversationHistory :: "ConversationItem list"
  activeConversationSpeaker :: speaker
  aiConversationMode :: bool
  storage :: "string \<rightharpoonup> TranslationHistoryItem list"
  storageOps :: nat
  requests :: "request list"
  clockReads :: nat
  alerts :: "(string \<times> string) list"
  spoken :: "(string \<times> string) list"

section \<open>Text functions\<close>

definition isWhitespace :: "char \<Rightarrow> bool" where
  "isWhitespace c \<longleftrightarrow>
     c = CHR '' '' \<or> c = CHR 0x09 \<or> c = CHR 0x0A \<or> c = CHR 0x0B \<or> c = CHR 0x0C \<or>
     c = CHR 0x0D \<or> c = CHR 0xA0"

text \<open>\<open>String.prototype.trim\<close>.\<close>

definition trim :: "string \<Rightarrow> string" where
  "trim s = rev (dropWhile isWhitespace (rev (dropWhile isWhitespace s)))"

text \<open>The letters that have a lower case, and their lower cases in the same order: the
  ASCII letters, then \<open>U+00C0\<close> to \<open>U+00D6\<close> and \<open>U+00D8\<close> to \<open>U+00DE\<close> with
  \<open>U+00E0\<close> to \<open>U+00F6\<close> and \<open>U+00F8\<close> to \<open>U+00FE\<close>.\<close>

definition upperLetters :: string where
  "upperLetters =
     ''ABCDEFGHIJKLMNOPQRSTUVWXYZ'' @
     [CHR 0xC0, CHR 0xC1, CHR 0xC2, CHR 0xC3, CHR 0xC4, CHR 0xC5, CHR 0xC6, CHR 0xC7,
      CHR 0xC8, CHR 0xC9, CHR 0xCA, CHR 0xCB, CHR 0xCC, CHR 0xCD, CHR 0xCE, CHR 0xCF,
      CHR 0xD0, CHR 0xD1, CHR 0xD2, CHR 0xD3, CHR 0xD4, CHR 0xD5, CHR 0xD6, CHR 0xD8,
      CHR 0xD9, CHR 0xDA, CHR 0xDB, CHR 0xDC, CHR 0xDD, CHR 0xDE]"

definition lowerLetters :: string where
  "lowerLetters =
     ''abcdefghijklmnopqrstuvwxyz'' @
     [CHR 0xE0, CHR 0xE1, CHR 0xE2, CHR 0xE3, CHR 0xE4, CHR 0xE5, CHR 0xE6, CHR 0xE7,
      CHR 0xE8, CHR 0xE9, CHR 0xEA, CHR 0xEB, CHR 0xEC, CHR 0xED, CHR 0xEE, CHR 0xEF,
      CHR 0xF0, CHR 0xF1, CHR 0xF2, CHR 0xF3, CHR 0xF4, CHR 0xF5, CHR 0xF6, CHR 0xF8,
      CHR 0xF9, CHR 0xFA, CHR 0xFB, CHR 0xFC, CHR 0xFD, CHR 0xFE]"

definition lowerChar :: "char \<Rightarrow> char" where
  "lowerChar c =
     (case map_of (zip upperLetters lowerLetters) c of None \<Rightarrow> c | Some d \<Rightarrow> d)"

text \<open>\<open>String.prototype.toLowerCase\<close>.\<close>

definition toLowerCase :: "string \<Rightarrow> string" where
  "toLowerCase s = map lowerChar s"

text \<open>\<open>s.replace (/\*+/g, '')\<close>: every asterisk is removed.\<close>

definition stripStars :: "string \<Rightarrow> string" where
  "stripStars s = filter (\<lambda>c. c \<noteq> CHR ''*'') s"

text \<open>\<open>s.split (sep)\<close> for a separator of one character.\<close>

fun split :: "char \<Rightarrow> string \<Rightarrow> string list" where
  "split sep [] = [[]]"
| "split sep (c # cs) =
     (if c = sep then [] # split sep cs
      else (case split sep cs of [] \<Rightarrow> [[c]] | w # ws \<Rightarrow> (c # w) # ws))"

text \<open>\<open>xs.join (sep)\<close>.\<close>

fun join :: "string \<Rightarrow> string list \<Rightarrow> string" where
  "join sep [] = []"
| "join sep [x] = x"
| "join sep (x # y # ys) = x @ sep @ join sep (y # ys)"

text \<open>\<open>n.toString ()\<close> for a non-negative integer: its decimal digits.\<close>

fun toString :: "nat \<Rightarrow> string" where
  "toString n =
     (if n < 10 then [''0123456789'' ! n]
      else toString (n div 10) @ [''0123456789'' ! (n mod 10)])"

declare toString.simps [simp del]

text \<open>\<open>xs.slice (-4)\<close>: the last four elements, or all of them when there are fewer.\<close>

definition sliceLast4 :: "'a list \<Rightarrow> 'a list" where
  "sliceLast4 xs = drop (length xs - 4) xs"

section \<open>Effects\<close>

text \<open>\<open>Alert.alert (title, message)\<close>.\<close>

definition alert :: "string \<Rightarrow> string \<Rightarrow> app_state \<Rightarrow> app_state" where
  "alert title message s = s\<lparr>alerts := alerts s @ [(title, message)]\<rparr>"

text \<open>\<open>(await model.generateContent (req)).response.text ()\<close>: the request is sent (and
  logged) whether or not it succeeds.\<close>

definition callModel :: "env \<Rightarrow> request \<Rightarrow> app_state \<Rightarrow> string option \<times> app_state" where
  "callModel e req s =
     (generateContent e (length (requests s)), s\<lparr>requests := requests s @ [req]\<rparr>)"

text \<open>The two storage keys that occur in the source (lines 105, 125, 368 and line 722).\<close>

definition historyKey :: string where
  "historyKey = ''@translation_history''"

definition ocrHistoryKey :: string where
  "ocrHistoryKey = ''translationHistory''"

text \<open>\<open>await AsyncStorage.setItem (key, JSON.stringify (h))\<close>; the boolean tells whether
  the promise resolved.\<close>

definition setItem ::
  "env \<Rightarrow> string \<Rightarrow> TranslationHistoryItem list \<Rightarrow> app_state \<Rightarrow> bool \<times> app_state" where
  "setItem e key h s =
     (if storage_ok e (storageOps s)
      then (True, s\<lparr>storage := (storage s)(key \<mapsto> h), storageOps := Suc (storageOps s)\<rparr>)
      else (False, s\<lparr>storageOps := Suc (storageOps s)\<rparr>))"

section \<open>The history store\<close>

text \<open>\<open>loadHistory\<close> (lines 103-112): a missing key leaves \<open>history\<close> as it is; a failure
  is logged to the console only.\<close>

definition loadHistory :: "env \<Rightarrow> app_state \<Rightarrow> app_state" where
  "loadHistory e s =
     (let s1 = s\<lparr>storageOps := Suc (storageOps s)\<rparr> in
      if \<not> storage_ok e (storageOps s) then s1
      else (case storage s historyKey of
              None \<Rightarrow> s1
            | Some jsonValue \<Rightarrow> s1\<lparr>history := jsonValue\<rparr>))"

text \<open>\<open>saveTranslation\<close> (lines 114-129). The argument \<open>item\<close> is given by its fields; its
  \<open>isFavorite\<close> is overridden by \<open>false\<close>. The clock is read twice, for \<open>id\<close> and for
  \<open>timestamp\<close>. A failure of \<open>setItem\<close> is logged to the console only.\<close>

definition saveTranslation ::
  "env \<Rightarrow> string \<Rightarrow> string \<Rightarrow> string list \<Rightarrow> string \<Rightarrow> string \<Rightarrow> bool \<Rightarrow> app_state \<Rightarrow> app_state" where
  "saveTranslation e transcribed translated tips sLang tLang fav s =
     (let newHistoryItem =
            \<lparr>id_h = toString (now e (clockReads s)),
             transcribedText = transcribed, translatedText = translated,
             culturalTips = tips, sourceLang = sLang, targetLang = tLang,
             timestamp_h = now e (Suc (clockReads s)), isFavorite = False\<rparr>;
          newHistory = newHistoryItem # history s;
          s1 = s\<lparr>clockReads := clockReads s + 2, history := newHistory\<rparr>
      in snd (setItem e historyKey newHistory s1))"

text \<open>\<open>toggleFavorite\<close> (lines 361-372).\<close>

definition toggleFavorite :: "env \<Rightarrow> string \<Rightarrow> app_state \<Rightarrow> app_state" where
  "toggleFavorite e ident s =
     (let newHistory =
            map (\<lambda>item. if id_h item = ident
                         then item\<lparr>isFavorite := \<not> isFavorite item\<rparr> else item)
                (history s)
      in snd (setItem e historyKey newHistory (s\<lparr>history := newHistory\<rparr>)))"

text \<open>The values of the state variables when the component is created (lines 40-66), over a
  given content of the store, and the effect that runs when it is mounted (lines 91-101):
  \<open>loadHistory\<close>.\<close>

definition initialState :: "(string \<rightharpoonup> TranslationHistoryItem list) \<Rightarrow> app_state" where
  "initialState st =
     \<lparr>recording = None, transcribedText_st = [], translatedText_st = [],
      culturalTips_st = [], isLoading = False, sourceLang_st = ''en'',
      targetLang_st = ''es'', isOffline = False, history = [], textToTranslate = [],
      conversationHistory = [], activeConversationSpeaker = A, aiConversationMode = True,
      storage = st, storageOps = 0, requests = [], clockReads = 0, alerts = [],
      spoken = []\<rparr>"

definition mount :: "env \<Rightarrow> (string \<rightharpoonup> TranslationHistoryItem list) \<Rightarrow> app_state" where
  "mount e st = loadHistory e (initialState st)"

section \<open>Prompts\<close>

definition dq :: string where
  "dq = [CHR 0x22]"

definition sq :: string where
  "sq = [CHR 0x27]"

definition nl :: string where
  "nl = [CHR 0x0A]"

text \<open>Lines 183 and 480.\<close>

definition transcribePrompt :: "string \<Rightarrow> string" where
  "transcribePrompt lang = ''Transcribe this audio in '' @ lang @ '' language.''"

text \<open>Lines 192, 399, 488 and 537.\<close>

definition translatePrompt :: "string \<Rightarrow> string \<Rightarrow> string \<Rightarrow> string" where
  "translatePrompt fromLang toLang txt =
     ''Translate this text from '' @ fromLang @ '' to '' @ toLang @ '': '' @ txt"

text \<open>Lines 198 and 405.\<close>

definition tipsPrompt :: "string \<Rightarrow> string \<Rightarrow> string" where
  "tipsPrompt tLang translated =
     ''Provide 3-5 concise cultural nuance tips for speaking '' @ tLang @
     '' in a conversation, considering the context of the translated text: '' @
     dq @ translated @ dq @ ''. Format as a numbered list.''"

text \<open>Line 391.\<close>

definition detectPrompt :: "string \<Rightarrow> string" where
  "detectPrompt txt =
     ''Detect the language of this text and respond with just the language code (e.g., '' @
     dq @ ''en'' @ dq @ '' for English, '' @ dq @ ''es'' @ dq @ '' for Spanish): '' @ txt"

text \<open>Lines 688, 694 and 699.\<close>

definition ocrDetectPrompt :: "string \<Rightarrow> string" where
  "ocrDetectPrompt txt =
     ''Detect the language of this text and return only the language code (e.g., '' @
     sq @ ''en'' @ sq @ '', '' @ sq @ ''es'' @ sq @ '', '' @ sq @ ''fr'' @ sq @ ''): '' @
     dq @ txt @ dq"

definition ocrTranslatePrompt :: "string \<Rightarrow> string \<Rightarrow> string \<Rightarrow> string" where
  "ocrTranslatePrompt fromLang toLang txt =
     ''Translate this text from '' @ fromLang @ '' to '' @ toLang @ '': '' @ dq @ txt @ dq"

definition ocrTipsPrompt :: "string \<Rightarrow> string \<Rightarrow> string" where
  "ocrTipsPrompt fromLang toLang =
     ''Provide 2-3 brief cultural context tips for translating from '' @ fromLang @
     '' to '' @ toLang @ ''. Format as bullet points.''"

text \<open>Lines 526-531.\<close>

definition responsePrompt :: "string \<Rightarrow> string \<Rightarrow> string \<Rightarrow> string" where
  "responsePrompt userMessage conversationContext toLang =
     ''You are having a natural conversation. The user just said: '' @
     dq @ userMessage @ dq @ nl @ ''      '' @ nl @
     ''Previous conversation context:'' @ nl @ conversationContext @ nl @ nl @
     ''Generate a natural, helpful, and engaging response in '' @ toLang @
     '' language. Keep it conversational and relevant to what they said. '' @
     ''Be friendly and helpful. Maximum 2 sentences.''"

text \<open>\<open>audioResponse.headers.get ('content-type') || 'audio/m4a'\<close> (lines 186 and 483).\<close>

definition mimeType :: "Media \<Rightarrow> string" where
  "mimeType audio =
     (case contentType audio of
        None \<Rightarrow> ''audio/m4a''
      | Some c \<Rightarrow> if c = [] then ''audio/m4a'' else c)"

section \<open>The translation pipelines\<close>

text \<open>The automatic detection of the source language (lines 387-394 and 686-691): the
  answer of the model is trimmed and put in lower case; nothing else is checked.\<close>

definition resolveSourceLang :: "env \<Rightarrow> string \<Rightarrow> app_state \<Rightarrow> string option \<times> app_state" where
  "resolveSourceLang e prompt s =
     (if sourceLang_st s = ''auto''
      then (case callModel e (Prompt prompt) s of
              (None, s1) \<Rightarrow> (None, s1)
            | (Some r, s1) \<Rightarrow> (Some (toLowerCase (trim r)), s1))
      else (Some (sourceLang_st s), s))"

text \<open>The number of calls to the model that the detection stage makes in state \<open>s\<close>
  (lines 390-394 and 687-691): one when the source language is \<open>auto\<close>, none otherwise.\<close>

definition detectionCalls :: "app_state \<Rightarrow> nat" where
  "detectionCalls s = (if sourceLang_st s = ''auto'' then 1 else 0)"

text \<open>The \<open>catch\<close> blocks of \<open>stopRecording\<close> and \<open>stopConversationRecording\<close> (lines
  213-215 and 508-510), of \<open>translateText\<close> (lines 422-424) and of
  \<open>translateExtractedText\<close> (lines 724-726).\<close>

definition processingError :: "app_state \<Rightarrow> app_state" where
  "processingError s =
     alert ''Error'' ''Failed to process audio. Check your API key and network.'' s"

definition translationError :: "app_state \<Rightarrow> app_state" where
  "translationError s =
     alert ''Error'' ''Failed to translate text. Check your API key and network.'' s"

definition ocrTranslationError :: "app_state \<Rightarrow> app_state" where
  "ocrTranslationError s = alert ''Error'' ''Failed to translate extracted text.'' s"

text \<open>\<open>startRecording\<close> (lines 131-155).\<close>

definition startRecording :: "env \<Rightarrow> app_state \<Rightarrow> app_state" where
  "startRecording e s =
     (if \<not> permissionGranted e
      then alert ''Microphone Permission Required''
             ''Please allow microphone access to use voice translation.'' s
      else (case createAsync e of
              None \<Rightarrow> alert ''Error'' ''Failed to start recording.'' s
            | Some r \<Rightarrow> s\<lparr>recording := Some r\<rparr>))"

text \<open>The \<open>try\<close> block of \<open>stopRecording\<close> (lines 174-212).\<close>

definition stopRecording_try :: "env \<Rightarrow> string \<Rightarrow> app_state \<Rightarrow> app_state" where
  "stopRecording_try e uri s =
     (case fetch e uri of
        None \<Rightarrow> processingError s
      | Some audio \<Rightarrow>
        (case callModel e
                (PromptWithData (transcribePrompt (sourceLang_st s)) (mimeType audio)
                   (base64Data audio)) s of
           (None, s1) \<Rightarrow> processingError s1
         | (Some r1, s1) \<Rightarrow>
           let txt = trim r1;
               s2 = s1\<lparr>transcribedText_st := txt\<rparr>
           in (case callModel e
                       (Prompt (translatePrompt (sourceLang_st s) (targetLang_st s) txt)) s2 of
                 (None, s3) \<Rightarrow> processingError s3
               | (Some r2, s3) \<Rightarrow>
                 let translated = stripStars (trim r2);
                     s4 = s3\<lparr>translatedText_st := translated\<rparr>
                 in (case callModel e (Prompt (tipsPrompt (targetLang_st s) translated)) s4 of
                       (None, s5) \<Rightarrow> processingError s5
                     | (Some r3, s5) \<Rightarrow>
                       let tips = filter (\<lambda>tip. length tip > 0)
                                    (split (CHR 0x0A) (stripStars (trim r3)));
                           s6 = s5\<lparr>culturalTips_st := tips\<rparr>
                       in saveTranslation e txt translated tips (sourceLang_st s)
                            (targetLang_st s) False s6))))"

text \<open>\<open>stopRecording\<close> (lines 157-219). When \<open>stopAndUnloadAsync\<close> is rejected the
  handler stops there: the call is outside the \<open>try\<close> block. The test \<open>!uri\<close> (line 164)
  holds for \<open>null\<close> and for the empty string.\<close>

definition stopRecording :: "env \<Rightarrow> app_state \<Rightarrow> app_state" where
  "stopRecording e s =
     (case recording s of
        None \<Rightarrow> s
      | Some r \<Rightarrow>
        let s1 = s\<lparr>recording := None\<rparr> in
        if \<not> stopAndUnloadAsync r then s1
        else (case getURI r of
                None \<Rightarrow> alert ''Error'' ''No audio recorded.'' s1
              | Some uri \<Rightarrow>
                if uri = [] then alert ''Error'' ''No audio recorded.'' s1
                else (stopRecording_try e uri
                        (s1\<lparr>isLoading := True, transcribedText_st := [],
                            translatedText_st := [], culturalTips_st := []\<rparr>))
                     \<lparr>isLoading := False\<rparr>))"

text \<open>The microphone button of the main view (lines 847-851): it is disabled while
  \<open>isOffline\<close> holds, and otherwise stops the recording in progress or starts one.\<close>

definition pressMicButton :: "env \<Rightarrow> app_state \<Rightarrow> app_state" where
  "pressMicButton e s =
     (if isOffline s then s
      else (case recording s of
              Some r \<Rightarrow> stopRecording e s
            | None \<Rightarrow> startRecording e s))"

text \<open>The \<open>try\<close> block of \<open>translateText\<close> (lines 385-421).\<close>

definition translateText_try :: "env \<Rightarrow> app_state \<Rightarrow> app_state" where
  "translateText_try e s =
     (case resolveSourceLang e (detectPrompt (textToTranslate s)) s of
        (None, s1) \<Rightarrow> translationError s1
      | (Some detectedLang, s1) \<Rightarrow>
        let s2 = s1\<lparr>transcribedText_st := textToTranslate s\<rparr>
        in (case callModel e
                    (Prompt (translatePrompt detectedLang (targetLang_st s)
                               (textToTranslate s))) s2 of
              (None, s3) \<Rightarrow> translationError s3
            | (Some r2, s3) \<Rightarrow>
              let translated = stripStars (trim r2);
                  s4 = s3\<lparr>translatedText_st := translated\<rparr>
              in (case callModel e (Prompt (tipsPrompt (targetLang_st s) translated)) s4 of
                    (None, s5) \<Rightarrow> translationError s5
                  | (Some r3, s5) \<Rightarrow>
                    let tips = filter (\<lambda>tip. length tip > 0)
                                 (split (CHR 0x0A) (stripStars (trim r3)));
                        s6 = s5\<lparr>culturalTips_st := tips\<rparr>;
                        s7 = saveTranslation e (textToTranslate s) translated tips
                               detectedLang (targetLang_st s) False s6
                    in s7\<lparr>textToTranslate := []\<rparr>)))"

text \<open>\<open>translateText\<close> (lines 374-428).\<close>

definition translateText :: "env \<Rightarrow> app_state \<Rightarrow> app_state" where
  "translateText e s =
     (if trim (textToTranslate s) = []
      then alert ''Error'' ''Please enter some text to translate.'' s
      else (translateText_try e
              (s\<lparr>isLoading := True, transcribedText_st := [],
                 translatedText_st := [], culturalTips_st := []\<rparr>))
           \<lparr>isLoading := False\<rparr>)"

text \<open>The \<open>try\<close> block of \<open>translateExtractedText\<close> (lines 682-723): the new history is
  written under \<open>ocrHistoryKey\<close>, and a rejected \<open>setItem\<close> reaches the \<open>catch\<close> block.\<close>

definition translateExtractedText_try :: "env \<Rightarrow> string \<Rightarrow> app_state \<Rightarrow> app_state" where
  "translateExtractedText_try e txt s =
     (case resolveSourceLang e (ocrDetectPrompt txt) s of
        (None, s1) \<Rightarrow> ocrTranslationError s1
      | (Some detectedSourceLang, s1) \<Rightarrow>
        (case callModel e
                (Prompt (ocrTranslatePrompt detectedSourceLang (targetLang_st s) txt)) s1 of
           (None, s2) \<Rightarrow> ocrTranslationError s2
         | (Some r2, s2) \<Rightarrow>
           let translated = stripStars (trim r2)
           in (case callModel e
                       (Prompt (ocrTipsPrompt detectedSourceLang (targetLang_st s))) s2 of
                 (None, s3) \<Rightarrow> ocrTranslationError s3
               | (Some r3, s3) \<Rightarrow>
                 let tips = filter (\<lambda>tip. trim tip \<noteq> [])
                              (split (CHR 0x0A) (stripStars (trim r3)));
                     s4 = s3\<lparr>transcribedText_st := txt, translatedText_st := translated,
                             culturalTips_st := tips\<rparr>;
                     newHistoryItem =
                       \<lparr>id_h = toString (now e (clockReads s4)),
                        transcribedText = txt, translatedText = translated,
                        culturalTips = tips, sourceLang = detectedSourceLang,
                        targetLang = targetLang_st s,
                        timestamp_h = now e (Suc (clockReads s4)), isFavorite = False\<rparr>;
                     updatedHistory = newHistoryItem # history s;
                     s5 = s4\<lparr>clockReads := clockReads s4 + 2, history := updatedHistory\<rparr>
                 in (case setItem e ocrHistoryKey updatedHistory s5 of
                       (True, s6) \<Rightarrow> s6
                     | (False, s6) \<Rightarrow> ocrTranslationError s6))))"

text \<open>\<open>translateExtractedText\<close> (lines 680-730).\<close>

definition translateExtractedText :: "env \<Rightarrow> string \<Rightarrow> app_state \<Rightarrow> app_state" where
  "translateExtractedText e txt s =
     (translateExtractedText_try e txt (s\<lparr>isLoading := True\<rparr>))\<lparr>isLoading := False\<rparr>"

section \<open>The conversation pipeline\<close>

text \<open>
  \<open>generateAIResponse\<close> (lines 516-561). The function reads \<open>conversationHistory\<close> and
  \<open>activeConversationSpeaker\<close> from the closure of the render in which the handler was
  created, so both are arguments here: the values of the state in which
  \<open>stopConversationRecording\<close> was called. The new turn is appended to the current
  sequence. A failure is logged to the console only.
\<close>

definition generateAIResponse ::
  "env \<Rightarrow> ConversationItem list \<Rightarrow> speaker \<Rightarrow> string \<Rightarrow> string \<Rightarrow> string \<Rightarrow>
   app_state \<Rightarrow> app_state" where
  "generateAIResponse e closureHistory closureSpeaker userMessage fromLang toLang s =
     (let conversationContext =
            join nl (map (\<lambda>item. (if speaker item = A then ''User'' else ''Assistant'') @
                                  '': '' @ translation item)
                         (sliceLast4 closureHistory))
      in (case callModel e (Prompt (responsePrompt userMessage conversationContext toLang)) s of
            (None, s1) \<Rightarrow> s1
          | (Some r1, s1) \<Rightarrow>
            let aiResponse = stripStars (trim r1)
            in (case callModel e (Prompt (translatePrompt toLang fromLang aiResponse)) s1 of
                  (None, s2) \<Rightarrow> s2
                | (Some r2, s2) \<Rightarrow>
                  let aiResponseTranslated = stripStars (trim r2);
                      aiConversationItem =
                        \<lparr>id_c = toString (now e (clockReads s2) + 1),
                         text_c = aiResponse, translation = aiResponseTranslated,
                         speaker = (if closureSpeaker = A then B else A),
                         timestamp_c = now e (Suc (clockReads s2)) + 1\<rparr>
                  in s2\<lparr>clockReads := clockReads s2 + 2,
                        conversationHistory := conversationHistory s2 @ [aiConversationItem],
                        spoken := spoken s2 @ [(aiResponse, toLang)]\<rparr>)))"

text \<open>The \<open>try\<close> block of \<open>stopConversationRecording\<close> (lines 467-507).\<close>

definition stopConversationRecording_try :: "env \<Rightarrow> string \<Rightarrow> app_state \<Rightarrow> app_state" where
  "stopConversationRecording_try e uri s =
     (case fetch e uri of
        None \<Rightarrow> processingError s
      | Some audio \<Rightarrow>
        let fromLang = (if activeConversationSpeaker s = A
                        then sourceLang_st s else targetLang_st s);
            toLang = (if activeConversationSpeaker s = A
                      then targetLang_st s else sourceLang_st s)
        in (case callModel e
                    (PromptWithData (transcribePrompt fromLang) (mimeType audio)
                       (base64Data audio)) s of
              (None, s1) \<Rightarrow> processingError s1
            | (Some r1, s1) \<Rightarrow>
              let txt = trim r1
              in (case callModel e (Prompt (translatePrompt fromLang toLang txt)) s1 of
                    (None, s2) \<Rightarrow> processingError s2
                  | (Some r2, s2) \<Rightarrow>
                    let translated = trim r2;
                        newConversationItem =
                          \<lparr>id_c = toString (now e (clockReads s2)),
                           text_c = txt, translation = translated,
                           speaker = activeConversationSpeaker s,
                           timestamp_c = now e (Suc (clockReads s2))\<rparr>;
                        s3 = s2\<lparr>clockReads := clockReads s2 + 2,
                                conversationHistory :=
                                  conversationHistory s2 @ [newConversationItem]\<rparr>
                    in if aiConversationMode s
                       then generateAIResponse e (conversationHistory s)
                              (activeConversationSpeaker s) translated fromLang toLang s3
                       else s3)))"

text \<open>\<open>stopConversationRecording\<close> (lines 453-514); the test \<open>!uri\<close> (line 460) holds
  for \<open>null\<close> and for the empty string.\<close>

definition stopConversationRecording :: "env \<Rightarrow> app_state \<Rightarrow> app_state" where
  "stopConversationRecording e s =
     (case recording s of
        None \<Rightarrow> s
      | Some r \<Rightarrow>
        let s1 = s\<lparr>recording := None\<rparr> in
        if \<not> stopAndUnloadAsync r then s1
        else (case getURI r of
                None \<Rightarrow> alert ''Error'' ''No audio recorded.'' s1
              | Some uri \<Rightarrow>
                if uri = [] then alert ''Error'' ''No audio recorded.'' s1
                else (stopConversationRecording_try e uri (s1\<lparr>isLoading := True\<rparr>))
                     \<lparr>isLoading := False\<rparr>))"

text \<open>
  One turn of a conversation as the user drives it: a speaker is selected (lines
  1032 and 1040), a recording \<open>r\<close> is made, and the recording is stopped (line 1050).
  A conversation is a sequence of such turns.
\<close>

definition conversationTurn :: "env \<Rightarrow> speaker \<times> Recording \<Rightarrow> app_state \<Rightarrow> app_state" where
  "conversationTurn e t s =
     stopConversationRecording e
       (s\<lparr>activeConversationSpeaker := fst t, recording := Some (snd t)\<rparr>)"

fun runConversation :: "env \<Rightarrow> (speaker \<times> Recording) list \<Rightarrow> app_state \<Rightarrow> app_state" where
  "runConversation e [] s = s"
| "runConversation e (t # ts) s = runConversation e ts (conversationTurn e t s)"

text \<open>
  A human turn succeeds when the recording stops and has a URI that is not empty, the
  audio is fetched, and the next two calls to the model (transcription and translation)
  answer.
\<close>

definition audioAvailable :: "env \<Rightarrow> Recording \<Rightarrow> bool" where
  "audioAvailable e r \<longleftrightarrow>
     stopAndUnloadAsync r \<and>
     (case getURI r of None \<Rightarrow> False | Some uri \<Rightarrow> uri \<noteq> [] \<and> fetch e uri \<noteq> None)"

definition humanTurnSucceeds :: "env \<Rightarrow> Recording \<Rightarrow> app_state \<Rightarrow> bool" where
  "humanTurnSucceeds e r s \<longleftrightarrow>
     audioAvailable e r \<and>
     generateContent e (length (requests s)) \<noteq> None \<and>
     generateContent e (Suc (length (requests s))) \<noteq> None"

fun humanTurnsSucceed :: "env \<Rightarrow> (speaker \<times> Recording) list \<Rightarrow> app_state \<Rightarrow> bool" where
  "humanTurnsSucceed e [] s = True"
| "humanTurnsSucceed e (t # ts) s =
     (humanTurnSucceeds e (snd t) s \<and> humanTurnsSucceed e ts (conversationTurn e t s))"

text \<open>The other speaker.\<close>

fun opposite :: "speaker \<Rightarrow> speaker" where
  "opposite A = B"
| "opposite B = A"

section \<open>Concrete environments and states\<close>

text \<open>An environment that answers the calls to the model from a script, in order, and
  rejects every call after the script's end.\<close>

definition scripted :: "string option list \<Rightarrow> nat \<Rightarrow> string option" where
  "scripted rs n = (if n < length rs then rs ! n else None)"

definition scriptedEnv :: "string option list \<Rightarrow> (nat \<Rightarrow> nat) \<Rightarrow> env" where
  "scriptedEnv rs clock =
     \<lparr>generateContent = scripted rs, now = clock,
      fetch = (\<lambda>uri. Some \<lparr>contentType = Some ''audio/webm'', base64Data = ''AAAA''\<rparr>),
      storage_ok = (\<lambda>n. True), permissionGranted = True,
      createAsync = Some (Recording True (Some ''file:///rec.m4a''))\<rparr>"

definition demoRecording :: Recording where
  "demoRecording = Recording True (Some ''file:///rec.m4a'')"

text \<open>A clock that advances by 5 ms from one reading to the next, and one that
  stands still.\<close>

definition tickingClock :: "nat \<Rightarrow> nat" where
  "tickingClock n = 1000 + 5 * n"

definition frozenClock :: "nat \<Rightarrow> nat" where
  "frozenClock n = 1000"

text \<open>A clock that the system sets back by one second after its fourth reading.\<close>

definition resetClock :: "nat \<Rightarrow> nat" where
  "resetClock n = (if n < 4 then 5000 + 200 * n else 4000 + 200 * n)"

text \<open>States: a fresh installation; text entered; text entered with automatic detection;
  a recording in progress; a record saved earlier and loaded when the component is mounted.\<close>

definition freshState :: app_state where
  "freshState = initialState Map.empty"

definition textState :: app_state where
  "textState = freshState\<lparr>textToTranslate := ''Good morning''\<rparr>"

definition autoTextState :: app_state where
  "autoTextState = textState\<lparr>sourceLang_st := ''auto''\<rparr>"

definition voiceState :: app_state where
  "voiceState = freshState\<lparr>recording := Some demoRecording\<rparr>"

definition oldItem :: TranslationHistoryItem where
  "oldItem =
     \<lparr>id_h = ''1'', transcribedText = ''Hello'', translatedText = ''Hola'',
      culturalTips = [], sourceLang = ''en'', targetLang = ''es'', timestamp_h = 1,
      isFavorite = False\<rparr>"

definition storedState :: app_state where
  "storedState = mount (scriptedEnv [] tickingClock) [historyKey \<mapsto> [oldItem]]"

section \<open>Basic facts\<close>

lemmas effect_defs = callModel_def setItem_def alert_def Let_def

lemmas text_pipeline_defs =
  translateText_def translateText_try_def resolveSourceLang_def
  saveTranslation_def translationError_def effect_defs

lemmas voice_pipeline_defs =
  stopRecording_def stopRecording_try_def saveTranslation_def processingError_def effect_defs

lemmas ocr_pipeline_defs =
  translateExtractedText_def translateExtractedText_try_def resolveSourceLang_def
  ocrTranslationError_def effect_defs

lemmas conversation_defs =
  stopConversationRecording_def stopConversationRecording_try_def generateAIResponse_def
  processingError_def effect_defs

lemmas demo_defs =
  freshState_def textState_def autoTextState_def voiceState_def oldItem_def storedState_def
  mount_def loadHistory_def initialState_def scriptedEnv_def scripted_def demoRecording_def
  tickingClock_def frozenClock_def resetClock_def historyKey_def ocrHistoryKey_def

lemmas string_defs =
  trim_def isWhitespace_def toLowerCase_def lowerChar_def upperLetters_def lowerLetters_def
  stripStars_def nl_def dq_def sq_def

lemma audioAvailableE:
  assumes "audioAvailable e r"
  obtains uri audio where
    "stopAndUnloadAsync r" "getURI r = Some uri" "uri \<noteq> []" "fetch e uri = Some audio"
  using assms by (auto simp: audioAvailable_def split: option.splits)

text \<open>\<open>toLowerCase\<close> beyond ASCII: the letters of the Latin-1 supplement are lowered, the
  multiplication sign \<open>U+00D7\<close> and the sharp s \<open>U+00DF\<close> are kept.\<close>

lemma toLowerCase_latin1:
  "toLowerCase [CHR ''F'', CHR ''R'', CHR ''A'', CHR ''N'', CHR 0xC7, CHR ''A'', CHR ''I'', CHR ''S''] =
     [CHR ''f'', CHR ''r'', CHR ''a'', CHR ''n'', CHR 0xE7, CHR ''a'', CHR ''i'', CHR ''s'']"
  "toLowerCase [CHR 0xC0, CHR 0xD6, CHR 0xD7, CHR 0xD8, CHR 0xDE, CHR 0xDF, CHR 0xFF] =
     [CHR 0xE0, CHR 0xF6, CHR 0xD7, CHR 0xF8, CHR 0xFE, CHR 0xDF, CHR 0xFF]"
  by (simp_all add: toLowerCase_def lowerChar_def upperLetters_def lowerLetters_def)

text \<open>A blank answer to the tips call leaves no tips.\<close>

lemma blank_tips:
  "trim tp = [] \<Longrightarrow>
   filter (\<lambda>tip. length tip > 0) (split (CHR 0x0A) (stripStars (trim tp))) = []"
  by (simp add: stripStars_def)

lemma call_answers:
  assumes "\<forall>k < n. generateContent e (m + k) \<noteq> None" and "j < n"
  shows "\<exists>a. generateContent e (m + j) = Some a"
  using assms by auto

lemma detection_requests:
  "length (requests (snd (resolveSourceLang e p s))) = length (requests s) + detectionCalls s"
  by (simp add: resolveSourceLang_def detectionCalls_def callModel_def split: option.splits)

lemma keys_differ: "ocrHistoryKey \<noteq> historyKey"
  by (simp add: ocrHistoryKey_def historyKey_def)

lemma opposite_if: "(if sp = A then B else A) = opposite sp"
  by (cases sp) simp_all

section \<open>The favourite flag\<close>

lemma toggleFavorite_history:
  "history (toggleFavorite e i s) =
     map (\<lambda>item. if id_h item = i then item\<lparr>isFavorite := \<not> isFavorite item\<rparr> else item)
       (history s)"
  by (simp add: toggleFavorite_def setItem_def Let_def)

lemma toggleFavorite_twice:
  "history (toggleFavorite e i (toggleFavorite e i s)) = history s"
  by (simp add: toggleFavorite_history o_def map_idI)

lemma toggleFavorite_absent:
  "\<forall>r \<in> set (history s). id_h r \<noteq> i \<Longrightarrow> history (toggleFavorite e i s) = history s"
  by (simp add: toggleFavorite_history map_idI)

text \<open>
  Claim C3, as the code has it. The only operation on the favourite flag is
  \<open>toggleFavorite\<close>, which inverts the flag of the records with the given identifier:
  one call inverts the flag, two calls in a row restore the history they started from
  (so the operation is an involution, not idempotent). No call adds, removes or reorders
  a record (the identifiers and the length stay the same), and for an identifier that no
  record has the history is unchanged.
\<close>

theorem C3_toggleFavorite_involution:
  "history (toggleFavorite e i (toggleFavorite e i s)) = history s \<and>
   map isFavorite (history (toggleFavorite e i s)) =
     map (\<lambda>r. if id_h r = i then \<not> isFavorite r else isFavorite r) (history s) \<and>
   map id_h (history (toggleFavorite e i s)) = map id_h (history s) \<and>
   length (history (toggleFavorite e i s)) = length (history s) \<and>
   ((\<forall>r \<in> set (history s). id_h r \<noteq> i) \<longrightarrow> history (toggleFavorite e i s) = history s)"
  by (simp add: toggleFavorite_twice toggleFavorite_absent) (simp add: toggleFavorite_history)

theorem C3_toggleFavorite_involution_witness:
  "map id_h (history storedState) = [''1''] \<and>
   history (toggleFavorite (scriptedEnv [] tickingClock) ''2'' storedState) =
     history storedState"
proof -
  have ids: "map id_h (history storedState) = [''1'']"
    by (simp add: demo_defs)
  have h: "\<forall>r \<in> set (history storedState). id_h r \<noteq> ''2''"
    by (simp add: demo_defs)
  from C3_toggleFavorite_involution [of "scriptedEnv [] tickingClock" "''2''" storedState] h
  have "history (toggleFavorite (scriptedEnv [] tickingClock) ''2'' storedState) =
          history storedState"
    by blast
  with ids show ?thesis by (rule conjI)
qed

text \<open>Claim C3 as stated fails: the record \<open>1\<close> is not a favourite, and after two calls for
  \<open>1\<close> it is not a favourite (the claim has it a favourite).\<close>

theorem C3_set_twice_counterexample:
  "map id_h (history storedState) = [''1''] \<and>
   map isFavorite
     (history (toggleFavorite (scriptedEnv [] tickingClock) ''1''
        (toggleFavorite (scriptedEnv [] tickingClock) ''1'' storedState))) = [False]"
  by (simp add: toggleFavorite_history demo_defs)

section \<open>The text pipeline\<close>

text \<open>
  Claim C1, as the code has it. When the text is not blank and every call to the model
  answers, \<open>translateText\<close> puts exactly one new record at the head of the history; the
  record is not a favourite and carries the text and the target language, and when the
  write succeeds the new history is what the store holds under \<open>@translation_history\<close>. Its source
  language is the configured one when that is not \<open>auto\<close> (and then it is not \<open>auto\<close>);
  when it is \<open>auto\<close>, it is the answer of the detection call, trimmed and in lower case,
  whatever that answer is.
\<close>

theorem C1_translateText_appends_one_record:
  assumes "trim (textToTranslate s) \<noteq> []"
    and "\<forall>k < detectionCalls s + 2. generateContent e (length (requests s) + k) \<noteq> None"
  shows "\<exists>r. history (translateText e s) = r # history s \<and>
             isFavorite r = False \<and>
             transcribedText r = textToTranslate s \<and>
             targetLang r = targetLang_st s \<and>
             (storage_ok e (storageOps s) \<longrightarrow>
                storage (translateText e s) historyKey = Some (r # history s)) \<and>
             (sourceLang_st s \<noteq> ''auto'' \<longrightarrow>
                sourceLang r = sourceLang_st s \<and> sourceLang r \<noteq> ''auto'') \<and>
             (sourceLang_st s = ''auto'' \<longrightarrow>
                (\<exists>d. generateContent e (length (requests s)) = Some d \<and>
                     sourceLang r = toLowerCase (trim d)))"
proof (cases "sourceLang_st s = ''auto''")
  case True
  with assms(2) have all: "\<forall>k < 3. generateContent e (length (requests s) + k) \<noteq> None"
    by (simp add: detectionCalls_def)
  obtain a where "generateContent e (length (requests s) + 0) = Some a"
    using call_answers [OF all, of 0] by auto
  moreover obtain b where "generateContent e (length (requests s) + 1) = Some b"
    using call_answers [OF all, of 1] by auto
  moreover obtain c where "generateContent e (length (requests s) + 2) = Some c"
    using call_answers [OF all, of 2] by auto
  ultimately show ?thesis
    using True assms(1) by (simp add: text_pipeline_defs)
next
  case False
  with assms(2) have all: "\<forall>k < 2. generateContent e (length (requests s) + k) \<noteq> None"
    by (simp add: detectionCalls_def)
  obtain a where "generateContent e (length (requests s) + 0) = Some a"
    using call_answers [OF all, of 0] by auto
  moreover obtain b where "generateContent e (length (requests s) + 1) = Some b"
    using call_answers [OF all, of 1] by auto
  ultimately show ?thesis
    using False assms(1) by (simp add: text_pipeline_defs)
qed

theorem C1_translateText_appends_one_record_witness:
  "trim (textToTranslate textState) \<noteq> [] \<and>
   detectionCalls textState = 0 \<and>
   generateContent
     (scriptedEnv [Some ''Buenos dias'', Some ''1. Use formal greetings with elders'']
        tickingClock) (length (requests textState)) \<noteq> None \<and>
   generateContent
     (scriptedEnv [Some ''Buenos dias'', Some ''1. Use formal greetings with elders'']
        tickingClock) (length (requests textState) + 1) \<noteq> None \<and>
   (\<exists>r. history
          (translateText
             (scriptedEnv [Some ''Buenos dias'', Some ''1. Use formal greetings with elders'']
                tickingClock) textState) = [r] \<and>
        isFavorite r = False \<and> sourceLang r = ''en'')"
proof -
  let ?e = "scriptedEnv [Some ''Buenos dias'', Some ''1. Use formal greetings with elders'']
              tickingClock"
  have h1: "trim (textToTranslate textState) \<noteq> []"
    by (simp add: demo_defs string_defs)
  have d: "detectionCalls textState = 0"
    by (simp add: demo_defs detectionCalls_def)
  have c0: "generateContent ?e (length (requests textState)) \<noteq> None"
    and c1: "generateContent ?e (length (requests textState) + 1) \<noteq> None"
    by (simp_all add: demo_defs)
  have h2: "\<forall>k < detectionCalls textState + 2.
              generateContent ?e (length (requests textState) + k) \<noteq> None"
    using c0 c1 by (simp add: d eval_nat_numeral All_less_Suc)
  have "history textState = []" "sourceLang_st textState = ''en''"
    by (simp_all add: demo_defs)
  with C1_translateText_appends_one_record [OF h1 h2] h1 d c0 c1 show ?thesis
    by auto
qed

text \<open>Claim C1 as stated fails: the text is not blank and the three calls answer, the
  detection call with \<open>auto\<close>; the record at the head of the history has the source
  language \<open>auto\<close>.\<close>

theorem C1_sentinel_stored_counterexample:
  "trim (textToTranslate autoTextState) \<noteq> [] \<and>
   map (generateContent
          (scriptedEnv [Some ''auto'', Some ''Buenos dias'', Some ''1. Be polite'']
             tickingClock)) [0, 1, 2] =
     [Some ''auto'', Some ''Buenos dias'', Some ''1. Be polite''] \<and>
   map sourceLang
     (history (translateText
        (scriptedEnv [Some ''auto'', Some ''Buenos dias'', Some ''1. Be polite'']
           tickingClock) autoTextState)) = [''auto'']"
  by (simp add: text_pipeline_defs demo_defs string_defs)

text \<open>
  Claim C2, as the code has it. When the source language is \<open>auto\<close> and the detection
  call, the translation call and the tips call answer, the record that \<open>translateText\<close>
  (for a text that is not blank) and \<open>translateExtractedText\<close> put at the head of the
  history has as its source language the answer of the detection call, trimmed and then
  put in lower case. Nothing else is done to the answer.
\<close>

theorem C2_detected_language_is_stored:
  assumes "sourceLang_st s = ''auto''"
    and "generateContent e (length (requests s)) = Some d"
    and "generateContent e (Suc (length (requests s))) = Some t"
    and "generateContent e (Suc (Suc (length (requests s)))) = Some tips"
  shows "(trim (textToTranslate s) \<noteq> [] \<longrightarrow>
            (\<exists>r. history (translateText e s) = r # history s \<and>
                 sourceLang r = toLowerCase (trim d))) \<and>
         (\<exists>r. history (translateExtractedText e txt s) = r # history s \<and>
              sourceLang r = toLowerCase (trim d))"
proof -
  have "\<exists>r. history (translateExtractedText e txt s) = r # history s \<and>
            sourceLang r = toLowerCase (trim d)"
    using assms by (simp add: ocr_pipeline_defs)
  moreover have "trim (textToTranslate s) \<noteq> [] \<longrightarrow>
      (\<exists>r. history (translateText e s) = r # history s \<and>
           sourceLang r = toLowerCase (trim d))"
    using assms by (simp add: text_pipeline_defs)
  ultimately show ?thesis by blast
qed

theorem C2_detected_language_is_stored_witness:
  "sourceLang_st autoTextState = ''auto'' \<and>
   trim (textToTranslate autoTextState) \<noteq> [] \<and>
   map (generateContent
          (scriptedEnv [Some '' EN'', Some ''Buenos dias'', Some ''1. Be polite'']
             tickingClock)) [0, 1, 2] =
     [Some '' EN'', Some ''Buenos dias'', Some ''1. Be polite''] \<and>
   (\<exists>r. history (translateText
                   (scriptedEnv [Some '' EN'', Some ''Buenos dias'', Some ''1. Be polite'']
                      tickingClock) autoTextState) = [r] \<and>
        sourceLang r = ''en'') \<and>
   (\<exists>r. history (translateExtractedText
                   (scriptedEnv [Some '' EN'', Some ''Buenos dias'', Some ''1. Be polite'']
                      tickingClock) ''Good morning'' autoTextState) = [r] \<and>
        sourceLang r = ''en'')"
proof -
  let ?e = "scriptedEnv [Some '' EN'', Some ''Buenos dias'', Some ''1. Be polite''] tickingClock"
  have h1: "sourceLang_st autoTextState = ''auto''"
    by (simp add: demo_defs)
  have h2: "generateContent ?e (length (requests autoTextState)) = Some '' EN''"
    and h3: "generateContent ?e (Suc (length (requests autoTextState))) = Some ''Buenos dias''"
    and h4: "generateContent ?e (Suc (Suc (length (requests autoTextState)))) =
               Some ''1. Be polite''"
    by (simp_all add: demo_defs)
  have t: "trim (textToTranslate autoTextState) \<noteq> []"
    by (simp add: demo_defs string_defs)
  have calls: "map (generateContent ?e) [0, 1, 2] =
                 [Some '' EN'', Some ''Buenos dias'', Some ''1. Be polite'']"
    by (simp add: demo_defs)
  have low: "toLowerCase (trim '' EN'') = ''en''"
    by (simp add: string_defs)
  have empty: "history autoTextState = []"
    by (simp add: demo_defs)
  from C2_detected_language_is_stored [OF h1 h2 h3 h4, of "''Good morning''"] t
  have "(\<exists>r. history (translateText ?e autoTextState) = [r] \<and> sourceLang r = ''en'') \<and>
        (\<exists>r. history (translateExtractedText ?e ''Good morning'' autoTextState) = [r] \<and>
             sourceLang r = ''en'')"
    by (simp only: low empty) simp
  with h1 t calls show ?thesis by blast
qed

text \<open>Claim C2 as stated fails: the source language is \<open>auto\<close>, the detection call answers
  \<open>Auto\<close> followed by a line feed, and the record that \<open>translateExtractedText\<close> stores
  has the source language \<open>auto\<close>: the sentinel, and not the lower-cased answer (which
  ends with the line feed).\<close>

theorem C2_sentinel_stored_counterexample:
  "sourceLang_st autoTextState = ''auto'' \<and>
   map (generateContent
          (scriptedEnv [Some (''Auto'' @ nl), Some ''Buenos dias'', Some ''- Be polite'']
             tickingClock)) [0, 1, 2] =
     [Some (''Auto'' @ nl), Some ''Buenos dias'', Some ''- Be polite''] \<and>
   map sourceLang
     (history (translateExtractedText
        (scriptedEnv [Some (''Auto'' @ nl), Some ''Buenos dias'', Some ''- Be polite'']
           tickingClock) ''Good morning'' autoTextState)) = [''auto''] \<and>
   toLowerCase (''Auto'' @ nl) \<noteq> ''auto''"
  by (simp add: ocr_pipeline_defs demo_defs string_defs)

text \<open>
  Claim C7, as the code has it. The tips call is inside the same \<open>try\<close> block as the other
  stages. In \<open>translateText\<close> (text not blank, detection answering when it is needed,
  translation answering \<open>t\<close>) and in \<open>stopRecording\<close> (audio available, transcription
  answering \<open>t1\<close>, translation answering \<open>t\<close>):
  when the tips call is rejected, the invocation ends like on any other rejected call: no
  record is appended, the store is unchanged, the error alert of the pipeline is shown,
  the translation obtained before stays displayed and the displayed tips are empty;
  when the tips call answers with a blank text, the invocation goes on with no tips: the
  record is appended with an empty sequence of tips and no alert is shown.
\<close>

theorem C7_tips_failure:
  "(trim (textToTranslate s) \<noteq> [] \<and>
    (sourceLang_st s = ''auto'' \<longrightarrow> generateContent e (length (requests s)) \<noteq> None) \<and>
    generateContent e (length (requests s) + detectionCalls s) = Some t \<and>
    generateContent e (length (requests s) + detectionCalls s + 1) = None \<longrightarrow>
      history (translateText e s) = history s \<and>
      storage (translateText e s) = storage s \<and>
      translatedText_st (translateText e s) = stripStars (trim t) \<and>
      culturalTips_st (translateText e s) = [] \<and>
      alerts (translateText e s) =
        alerts s @ [(''Error'', ''Failed to translate text. Check your API key and network.'')]) \<and>
   (recording s = Some r \<and> audioAvailable e r \<and>
    generateContent e (length (requests s)) = Some t1 \<and>
    generateContent e (length (requests s) + 1) = Some t \<and>
    generateContent e (length (requests s) + 2) = None \<longrightarrow>
      history (stopRecording e s) = history s \<and>
      storage (stopRecording e s) = storage s \<and>
      transcribedText_st (stopRecording e s) = trim t1 \<and>
      translatedText_st (stopRecording e s) = stripStars (trim t) \<and>
      culturalTips_st (stopRecording e s) = [] \<and>
      alerts (stopRecording e s) =
        alerts s @ [(''Error'', ''Failed to process audio. Check your API key and network.'')]) \<and>
   (trim (textToTranslate s) \<noteq> [] \<and>
    (sourceLang_st s = ''auto'' \<longrightarrow> generateContent e (length (requests s)) \<noteq> None) \<and>
    generateContent e (length (requests s) + detectionCalls s) = Some t \<and>
    generateContent e (length (requests s) + detectionCalls s + 1) = Some tp \<and>
    trim tp = [] \<longrightarrow>
      (\<exists>x. history (translateText e s) = x # history s \<and>
           translatedText x = stripStars (trim t) \<and> culturalTips x = []) \<and>
      culturalTips_st (translateText e s) = [] \<and>
      alerts (translateText e s) = alerts s) \<and>
   (recording s = Some r \<and> audioAvailable e r \<and>
    generateContent e (length (requests s)) = Some t1 \<and>
    generateContent e (length (requests s) + 1) = Some t \<and>
    generateContent e (length (requests s) + 2) = Some tp \<and>
    trim tp = [] \<longrightarrow>
      (\<exists>x. history (stopRecording e s) = x # history s \<and>
           translatedText x = stripStars (trim t) \<and> culturalTips x = []) \<and>
      culturalTips_st (stopRecording e s) = [] \<and>
      alerts (stopRecording e s) = alerts s)"
proof -
  have text_rejected:
    "trim (textToTranslate s) \<noteq> [] \<and>
     (sourceLang_st s = ''auto'' \<longrightarrow> generateContent e (length (requests s)) \<noteq> None) \<and>
     generateContent e (length (requests s) + detectionCalls s) = Some t \<and>
     generateContent e (length (requests s) + detectionCalls s + 1) = None \<longrightarrow>
       history (translateText e s) = history s \<and>
       storage (translateText e s) = storage s \<and>
       translatedText_st (translateText e s) = stripStars (trim t) \<and>
       culturalTips_st (translateText e s) = [] \<and>
       alerts (translateText e s) =
         alerts s @ [(''Error'', ''Failed to translate text. Check your API key and network.'')]"
  proof (cases "sourceLang_st s = ''auto''")
    case True
    show ?thesis
    proof (intro impI, elim conjE)
      assume nonblank: "trim (textToTranslate s) \<noteq> []"
        and det: "sourceLang_st s = ''auto'' \<longrightarrow>
                    generateContent e (length (requests s)) \<noteq> None"
        and calls: "generateContent e (length (requests s) + detectionCalls s) = Some t"
          "generateContent e (length (requests s) + detectionCalls s + 1) = None"
      from det True obtain d where "generateContent e (length (requests s)) = Some d"
        by auto
      with True nonblank calls show
        "history (translateText e s) = history s \<and>
         storage (translateText e s) = storage s \<and>
         translatedText_st (translateText e s) = stripStars (trim t) \<and>
         culturalTips_st (translateText e s) = [] \<and>
         alerts (translateText e s) =
           alerts s @ [(''Error'', ''Failed to translate text. Check your API key and network.'')]"
        by (simp add: text_pipeline_defs detectionCalls_def)
    qed
  next
    case False
    then show ?thesis
      by (simp add: text_pipeline_defs detectionCalls_def)
  qed
  have voice_rejected:
    "recording s = Some r \<and> audioAvailable e r \<and>
     generateContent e (length (requests s)) = Some t1 \<and>
     generateContent e (length (requests s) + 1) = Some t \<and>
     generateContent e (length (requests s) + 2) = None \<longrightarrow>
       history (stopRecording e s) = history s \<and>
       storage (stopRecording e s) = storage s \<and>
       transcribedText_st (stopRecording e s) = trim t1 \<and>
       translatedText_st (stopRecording e s) = stripStars (trim t) \<and>
       culturalTips_st (stopRecording e s) = [] \<and>
       alerts (stopRecording e s) =
         alerts s @ [(''Error'', ''Failed to process audio. Check your API key and network.'')]"
  proof (intro impI, elim conjE)
    assume "recording s = Some r" and av: "audioAvailable e r"
      and calls: "generateContent e (length (requests s)) = Some t1"
        "generateContent e (length (requests s) + 1) = Some t"
        "generateContent e (length (requests s) + 2) = None"
    from av obtain uri audio where
      "stopAndUnloadAsync r" "getURI r = Some uri" "uri \<noteq> []" "fetch e uri = Some audio"
      by (rule audioAvailableE)
    with \<open>recording s = Some r\<close> calls show
      "history (stopRecording e s) = history s \<and>
       storage (stopRecording e s) = storage s \<and>
       transcribedText_st (stopRecording e s) = trim t1 \<and>
       translatedText_st (stopRecording e s) = stripStars (trim t) \<and>
       culturalTips_st (stopRecording e s) = [] \<and>
       alerts (stopRecording e s) =
         alerts s @ [(''Error'', ''Failed to process audio. Check your API key and network.'')]"
      by (simp add: voice_pipeline_defs)
  qed
  have text_blank:
    "trim (textToTranslate s) \<noteq> [] \<and>
     (sourceLang_st s = ''auto'' \<longrightarrow> generateContent e (length (requests s)) \<noteq> None) \<and>
     generateContent e (length (requests s) + detectionCalls s) = Some t \<and>
     generateContent e (length (requests s) + detectionCalls s + 1) = Some tp \<and>
     trim tp = [] \<longrightarrow>
       (\<exists>x. history (translateText e s) = x # history s \<and>
            translatedText x = stripStars (trim t) \<and> culturalTips x = []) \<and>
       culturalTips_st (translateText e s) = [] \<and>
       alerts (translateText e s) = alerts s"
  proof (cases "sourceLang_st s = ''auto''")
    case True
    show ?thesis
    proof (intro impI, elim conjE)
      assume nonblank: "trim (textToTranslate s) \<noteq> []"
        and det: "sourceLang_st s = ''auto'' \<longrightarrow>
                    generateContent e (length (requests s)) \<noteq> None"
        and calls: "generateContent e (length (requests s) + detectionCalls s) = Some t"
          "generateContent e (length (requests s) + detectionCalls s + 1) = Some tp"
        and blank: "trim tp = []"
      from det True obtain d where "generateContent e (length (requests s)) = Some d"
        by auto
      with True nonblank calls blank_tips [OF blank] show
        "(\<exists>x. history (translateText e s) = x # history s \<and>
              translatedText x = stripStars (trim t) \<and> culturalTips x = []) \<and>
         culturalTips_st (translateText e s) = [] \<and>
         alerts (translateText e s) = alerts s"
        by (simp add: text_pipeline_defs detectionCalls_def)
    qed
  next
    case False
    show ?thesis
    proof (intro impI, elim conjE)
      assume nonblank: "trim (textToTranslate s) \<noteq> []"
        and calls: "generateContent e (length (requests s) + detectionCalls s) = Some t"
          "generateContent e (length (requests s) + detectionCalls s + 1) = Some tp"
        and blank: "trim tp = []"
      with False blank_tips [OF blank] show
        "(\<exists>x. history (translateText e s) = x # history s \<and>
              translatedText x = stripStars (trim t) \<and> culturalTips x = []) \<and>
         culturalTips_st (translateText e s) = [] \<and>
         alerts (translateText e s) = alerts s"
        by (simp add: text_pipeline_defs detectionCalls_def)
    qed
  qed
  have voice_blank:
    "recording s = Some r \<and> audioAvailable e r \<and>
     generateContent e (length (requests s)) = Some t1 \<and>
     generateContent e (length (requests s) + 1) = Some t \<and>
     generateContent e (length (requests s) + 2) = Some tp \<and>
     trim tp = [] \<longrightarrow>
       (\<exists>x. history (stopRecording e s) = x # history s \<and>
            translatedText x = stripStars (trim t) \<and> culturalTips x = []) \<and>
       culturalTips_st (stopRecording e s) = [] \<and>
       alerts (stopRecording e s) = alerts s"
  proof (intro impI, elim conjE)
    assume "recording s = Some r" and av: "audioAvailable e r"
      and calls: "generateContent e (length (requests s)) = Some t1"
        "generateContent e (length (requests s) + 1) = Some t"
        "generateContent e (length (requests s) + 2) = Some tp"
      and blank: "trim tp = []"
    from av obtain uri audio where
      "stopAndUnloadAsync r" "getURI r = Some uri" "uri \<noteq> []" "fetch e uri = Some audio"
      by (rule audioAvailableE)
    with \<open>recording s = Some r\<close> calls blank_tips [OF blank] show
      "(\<exists>x. history (stopRecording e s) = x # history s \<and>
            translatedText x = stripStars (trim t) \<and> culturalTips x = []) \<and>
       culturalTips_st (stopRecording e s) = [] \<and>
       alerts (stopRecording e s) = alerts s"
      by (simp add: voice_pipeline_defs)
  qed
  show ?thesis
    by (rule conjI [OF text_rejected conjI [OF voice_rejected conjI [OF text_blank voice_blank]]])
qed

theorem C7_tips_failure_witness:
  "trim (textToTranslate textState) \<noteq> [] \<and>
   sourceLang_st textState = ''en'' \<and>
   map (generateContent (scriptedEnv [Some ''Buenos dias'', None] tickingClock)) [0, 1] =
     [Some ''Buenos dias'', None] \<and>
   history (translateText (scriptedEnv [Some ''Buenos dias'', None] tickingClock) textState) =
     history textState \<and>
   translatedText_st
     (translateText (scriptedEnv [Some ''Buenos dias'', None] tickingClock) textState) =
     ''Buenos dias'' \<and>
   map (generateContent (scriptedEnv [Some ''Buenos dias'', Some '' ''] tickingClock)) [0, 1] =
     [Some ''Buenos dias'', Some '' ''] \<and>
   trim '' '' = [] \<and>
   (\<exists>x. history (translateText (scriptedEnv [Some ''Buenos dias'', Some '' ''] tickingClock)
                    textState) = [x] \<and>
        translatedText x = ''Buenos dias'' \<and> culturalTips x = [])"
proof -
  let ?e = "scriptedEnv [Some ''Buenos dias'', None] tickingClock"
  let ?e' = "scriptedEnv [Some ''Buenos dias'', Some '' ''] tickingClock"
  have nonblank: "trim (textToTranslate textState) \<noteq> []"
    by (simp add: demo_defs string_defs)
  have lang: "sourceLang_st textState = ''en''"
    by (simp add: demo_defs)
  then have d: "detectionCalls textState = 0"
    by (simp add: detectionCalls_def)
  have det: "sourceLang_st textState = ''auto'' \<longrightarrow>
               generateContent ?e (length (requests textState)) \<noteq> None"
    and det': "sourceLang_st textState = ''auto'' \<longrightarrow>
               generateContent ?e' (length (requests textState)) \<noteq> None"
    using lang by simp_all
  have calls: "map (generateContent ?e) [0, 1] = [Some ''Buenos dias'', None]"
    and calls': "map (generateContent ?e') [0, 1] = [Some ''Buenos dias'', Some '' '']"
    by (simp_all add: demo_defs)
  have c1: "generateContent ?e (length (requests textState) + detectionCalls textState) =
              Some ''Buenos dias''"
    and c2: "generateContent ?e (length (requests textState) + detectionCalls textState + 1) =
              None"
    and c1': "generateContent ?e' (length (requests textState) + detectionCalls textState) =
              Some ''Buenos dias''"
    and c2': "generateContent ?e' (length (requests textState) + detectionCalls textState + 1) =
              Some '' ''"
    by (simp_all add: d) (simp_all add: demo_defs)
  have clean: "stripStars (trim ''Buenos dias'') = ''Buenos dias''"
    and blank: "trim '' '' = []"
    by (simp_all add: string_defs)
  have empty: "history textState = []"
    by (simp add: demo_defs)
  from C7_tips_failure [of textState ?e "''Buenos dias''", THEN conjunct1]
    nonblank det c1 c2
  have rejected: "history (translateText ?e textState) = history textState \<and>
        translatedText_st (translateText ?e textState) = ''Buenos dias''"
    by (simp add: clean)
  from C7_tips_failure [of textState ?e' "''Buenos dias''" _ _ "'' ''",
      THEN conjunct2, THEN conjunct2, THEN conjunct1]
    nonblank det' c1' c2' blank
  have "\<exists>x. history (translateText ?e' textState) = [x] \<and>
             translatedText x = ''Buenos dias'' \<and> culturalTips x = []"
    by (simp add: clean empty)
  with nonblank lang calls rejected calls' blank show ?thesis by blast
qed

text \<open>Claim C7 as stated fails: the translation call answers and the tips call is
  rejected; the history stays empty (the claim has a record with no tips appended) and the
  error alert is shown (the claim has the invocation complete).\<close>

theorem C7_tips_failure_counterexample:
  "trim (textToTranslate textState) \<noteq> [] \<and>
   map (generateContent (scriptedEnv [Some ''Buenos dias'', None] frozenClock)) [0, 1] =
     [Some ''Buenos dias'', None] \<and>
   history (translateText (scriptedEnv [Some ''Buenos dias'', None] frozenClock) textState) = [] \<and>
   alerts (translateText (scriptedEnv [Some ''Buenos dias'', None] frozenClock) textState) =
     [(''Error'', ''Failed to translate text. Check your API key and network.'')]"
  by (simp add: text_pipeline_defs demo_defs string_defs)

section \<open>The voice pipeline\<close>

text \<open>
  Claim C5, as the code has it. In \<open>stopRecording\<close>, when the audio is available and the
  transcription call answers \<open>t\<close>:
  if the translation call is rejected, no record is appended: the history and the store
  are what they were; the transcript \<open>trim t\<close> obtained before stays in
  \<open>transcribedText\<close> for display, the translation and the tips displayed are empty and the
  error alert is shown;
  if the translation call answers, be it with a blank text, the code does not take that
  for a failure: when the tips call answers too, a record is appended with the cleaned
  translation (empty for a blank answer) and no alert is shown.
\<close>

theorem C5_rejected_translation_keeps_transcript:
  assumes "recording s = Some r" and "audioAvailable e r"
    and "generateContent e (length (requests s)) = Some t"
  shows "(generateContent e (Suc (length (requests s))) = None \<longrightarrow>
            history (stopRecording e s) = history s \<and>
            storage (stopRecording e s) = storage s \<and>
            transcribedText_st (stopRecording e s) = trim t \<and>
            translatedText_st (stopRecording e s) = [] \<and>
            culturalTips_st (stopRecording e s) = [] \<and>
            alerts (stopRecording e s) =
              alerts s @
                [(''Error'', ''Failed to process audio. Check your API key and network.'')]) \<and>
         (generateContent e (Suc (length (requests s))) = Some t2 \<and>
          generateContent e (Suc (Suc (length (requests s)))) = Some t3 \<longrightarrow>
            (\<exists>x. history (stopRecording e s) = x # history s \<and>
                 transcribedText x = trim t \<and>
                 translatedText x = stripStars (trim t2)) \<and>
            (trim t2 = [] \<longrightarrow> translatedText_st (stopRecording e s) = []) \<and>
            alerts (stopRecording e s) = alerts s)"
proof -
  from assms(2) obtain uri audio where
    "stopAndUnloadAsync r" "getURI r = Some uri" "uri \<noteq> []" "fetch e uri = Some audio"
    by (rule audioAvailableE)
  with assms(1,3) show ?thesis
    by (simp add: voice_pipeline_defs stripStars_def)
qed

theorem C5_rejected_translation_keeps_transcript_witness:
  "recording voiceState = Some demoRecording \<and>
   audioAvailable (scriptedEnv [Some ''Good morning '', None] tickingClock) demoRecording \<and>
   map (generateContent (scriptedEnv [Some ''Good morning '', None] tickingClock)) [0, 1] =
     [Some ''Good morning '', None] \<and>
   history (stopRecording (scriptedEnv [Some ''Good morning '', None] tickingClock) voiceState) =
     history voiceState \<and>
   transcribedText_st
     (stopRecording (scriptedEnv [Some ''Good morning '', None] tickingClock) voiceState) =
     ''Good morning''"
proof -
  let ?e = "scriptedEnv [Some ''Good morning '', None] tickingClock"
  have h1: "recording voiceState = Some demoRecording"
    by (simp add: demo_defs)
  have h2: "audioAvailable ?e demoRecording"
    by (simp add: audioAvailable_def demo_defs)
  have h3: "generateContent ?e (length (requests voiceState)) = Some ''Good morning ''"
    and h4: "generateContent ?e (Suc (length (requests voiceState))) = None"
    by (simp_all add: demo_defs)
  have calls: "map (generateContent ?e) [0, 1] = [Some ''Good morning '', None]"
    by (simp add: demo_defs)
  have clean: "trim ''Good morning '' = ''Good morning''"
    by (simp add: string_defs)
  from C5_rejected_translation_keeps_transcript [OF h1 h2 h3, THEN conjunct1] h4
  have "history (stopRecording ?e voiceState) = history voiceState \<and>
        transcribedText_st (stopRecording ?e voiceState) = ''Good morning''"
    by (simp add: clean)
  with h1 h2 calls show ?thesis by blast
qed

text \<open>Claim C5 as stated fails when the failure of the translation stage is an empty
  answer: the transcription call answers, the translation call answers with a blank text
  and the tips call answers; a record with an empty translation is appended to the history
  and written to the store, and no alert is shown.\<close>

theorem C5_blank_translation_counterexample:
  "map (generateContent
          (scriptedEnv [Some ''Good morning'', Some '' '', Some ''1. Be polite''] tickingClock))
     [0, 1, 2] = [Some ''Good morning'', Some '' '', Some ''1. Be polite''] \<and>
   trim '' '' = [] \<and>
   history voiceState = [] \<and>
   map (\<lambda>x. (transcribedText x, translatedText x))
     (history (stopRecording
        (scriptedEnv [Some ''Good morning'', Some '' '', Some ''1. Be polite''] tickingClock)
        voiceState)) = [(''Good morning'', [])] \<and>
   storage (stopRecording
        (scriptedEnv [Some ''Good morning'', Some '' '', Some ''1. Be polite''] tickingClock)
        voiceState) historyKey =
     Some (history (stopRecording
        (scriptedEnv [Some ''Good morning'', Some '' '', Some ''1. Be polite''] tickingClock)
        voiceState)) \<and>
   alerts (stopRecording
        (scriptedEnv [Some ''Good morning'', Some '' '', Some ''1. Be polite''] tickingClock)
        voiceState) = []"
  by (simp add: voice_pipeline_defs demo_defs string_defs)

text \<open>
  Claim C6, as the code has it. The connectivity state gates the control, not the
  pipeline: while \<open>isOffline\<close> holds the microphone button is disabled, so pressing it
  changes nothing (no call to the model, no record, no alert). \<open>stopRecording\<close> itself
  never reads \<open>isOffline\<close>: it does offline exactly what it does online.
\<close>

theorem C6_offline_disables_button:
  "(isOffline s \<longrightarrow> pressMicButton e s = s) \<and>
   stopRecording e (s\<lparr>isOffline := b\<rparr>) = (stopRecording e s)\<lparr>isOffline := b\<rparr>"
  by (simp add: pressMicButton_def voice_pipeline_defs split: option.splits)

theorem C6_offline_disables_button_witness:
  "isOffline (voiceState\<lparr>isOffline := True\<rparr>) \<and>
   pressMicButton (scriptedEnv [] tickingClock) (voiceState\<lparr>isOffline := True\<rparr>) =
     voiceState\<lparr>isOffline := True\<rparr>"
proof -
  have h: "isOffline (voiceState\<lparr>isOffline := True\<rparr>)"
    by simp
  with C6_offline_disables_button
         [of "voiceState\<lparr>isOffline := True\<rparr>" "scriptedEnv [] tickingClock"]
  show ?thesis by blast
qed

text \<open>Claim C6 as stated fails: \<open>stopRecording\<close> is invoked while \<open>isOffline\<close> holds and the
  network rejects every call; the transcription request is sent all the same, and the
  alert shown is the one of any processing failure, not an offline error.\<close>

theorem C6_offline_call_counterexample:
  "isOffline (voiceState\<lparr>isOffline := True\<rparr>) \<and>
   length (requests (stopRecording (scriptedEnv [] tickingClock)
                       (voiceState\<lparr>isOffline := True\<rparr>))) = 1 \<and>
   alerts (stopRecording (scriptedEnv [] tickingClock) (voiceState\<lparr>isOffline := True\<rparr>)) =
     [(''Error'', ''Failed to process audio. Check your API key and network.'')]"
  by (simp add: voice_pipeline_defs demo_defs)

section \<open>The history store and the image pipeline\<close>

lemma mount_history:
  "history (mount e st) =
     (if storage_ok e 0 then (case st historyKey of None \<Rightarrow> [] | Some h \<Rightarrow> h) else [])"
  by (simp add: mount_def loadHistory_def initialState_def Let_def split: option.splits)

text \<open>The path through \<open>saveTranslation\<close> does round-trip: when the write and the later
  read succeed, what \<open>loadHistory\<close> reads back is the new history, the new record first.\<close>

lemma saveTranslation_roundtrip:
  assumes "storage_ok e (storageOps s)" and "storage_ok e' (Suc (storageOps s))"
  shows "history (loadHistory e' (saveTranslation e a b c d f g s)) =
           \<lparr>id_h = toString (now e (clockReads s)), transcribedText = a, translatedText = b,
            culturalTips = c, sourceLang = d, targetLang = f,
            timestamp_h = now e (Suc (clockReads s)), isFavorite = False\<rparr> # history s"
  using assms by (simp add: loadHistory_def saveTranslation_def setItem_def Let_def)

lemma saveTranslation_storage:
  "storage_ok e (storageOps s) \<Longrightarrow>
   storage (saveTranslation e a b c d f g s) =
     (storage s)(historyKey \<mapsto> history (saveTranslation e a b c d f g s))"
  by (simp add: saveTranslation_def setItem_def Let_def)

lemma saveTranslation_history:
  "history (saveTranslation e a b c d f g s) =
     \<lparr>id_h = toString (now e (clockReads s)), transcribedText = a, translatedText = b,
      culturalTips = c, sourceLang = d, targetLang = f,
      timestamp_h = now e (Suc (clockReads s)), isFavorite = False\<rparr> # history s"
  by (simp add: saveTranslation_def setItem_def Let_def)

lemma toggleFavorite_storage:
  "storage_ok e (storageOps s) \<Longrightarrow>
   storage (toggleFavorite e i s) = (storage s)(historyKey \<mapsto> history (toggleFavorite e i s))"
  by (simp add: toggleFavorite_def setItem_def Let_def)

lemma loadHistory_history:
  "storage_ok e (storageOps s) \<Longrightarrow>
   history (loadHistory e s) = (case storage s historyKey of None \<Rightarrow> history s | Some h \<Rightarrow> h)"
  by (simp add: loadHistory_def Let_def split: option.splits)

text \<open>
  Claim C10, as the code has it. When the calls to the model answer and the write succeeds,
  \<open>translateExtractedText\<close> puts a new record \<open>r\<close> at the head of the history in memory and
  writes the new history under the key \<open>translationHistory\<close>, which is not the key
  \<open>@translation_history\<close>; what is stored under \<open>@translation_history\<close> is untouched.
  The other operations use \<open>@translation_history\<close>: in any state \<open>u\<close>, a successful write
  of \<open>saveTranslation\<close> or \<open>toggleFavorite\<close> sets that key, and no other, to the new
  history in memory, and a successful \<open>loadHistory\<close> takes the history from that key.
  So when the component is mounted again over the store that the image pipeline left, the
  history loaded is the one that would have been loaded before the image was translated:
  a record that was not there before is not there. That holds for a reload that follows
  the image translation directly. A later star press or saved translation in the same
  session writes the whole history in memory, the record \<open>r\<close> included, under
  \<open>@translation_history\<close>, and a reload after that does load the record.
\<close>

theorem C10_ocr_record_under_other_key:
  assumes "\<forall>k < detectionCalls s + 2. generateContent e (length (requests s) + k) \<noteq> None"
    and "storage_ok e (storageOps s)"
  shows "\<exists>r. history (translateExtractedText e txt s) = r # history s \<and>
             storage (translateExtractedText e txt s) =
               (storage s)(ocrHistoryKey \<mapsto> r # history s) \<and>
             ocrHistoryKey \<noteq> historyKey \<and>
             history (mount e' (storage (translateExtractedText e txt s))) =
               history (mount e' (storage s)) \<and>
             (r \<notin> set (history (mount e' (storage s))) \<longrightarrow>
                r \<notin> set (history (mount e' (storage (translateExtractedText e txt s))))) \<and>
             (storage_ok e2 (storageOps u) \<longrightarrow>
                storage (saveTranslation e2 a b c d f g u) =
                  (storage u)(historyKey \<mapsto> history (saveTranslation e2 a b c d f g u)) \<and>
                storage (toggleFavorite e2 i u) =
                  (storage u)(historyKey \<mapsto> history (toggleFavorite e2 i u)) \<and>
                history (loadHistory e2 u) =
                  (case storage u historyKey of None \<Rightarrow> history u | Some h \<Rightarrow> h)) \<and>
             (storage_ok e2 (storageOps (translateExtractedText e txt s)) \<and>
              storage_ok e' 0 \<longrightarrow>
                history (mount e' (storage (toggleFavorite e2 i (translateExtractedText e txt s)))) =
                  history (toggleFavorite e2 i (translateExtractedText e txt s)) \<and>
                map id_h (history (toggleFavorite e2 i (translateExtractedText e txt s))) =
                  id_h r # map id_h (history s) \<and>
                history (mount e'
                   (storage (saveTranslation e2 a b c d f g (translateExtractedText e txt s)))) =
                  history (saveTranslation e2 a b c d f g (translateExtractedText e txt s)) \<and>
                r \<in> set (history
                   (saveTranslation e2 a b c d f g (translateExtractedText e txt s))))"
proof -
  let ?s' = "translateExtractedText e txt s"
  have "\<exists>r. history ?s' = r # history s \<and>
            storage ?s' = (storage s)(ocrHistoryKey \<mapsto> r # history s)"
  proof (cases "sourceLang_st s = ''auto''")
    case True
    with assms(1) have all: "\<forall>k < 3. generateContent e (length (requests s) + k) \<noteq> None"
      by (simp add: detectionCalls_def)
    obtain x where "generateContent e (length (requests s) + 0) = Some x"
      using call_answers [OF all, of 0] by auto
    moreover obtain y where "generateContent e (length (requests s) + 1) = Some y"
      using call_answers [OF all, of 1] by auto
    moreover obtain z where "generateContent e (length (requests s) + 2) = Some z"
      using call_answers [OF all, of 2] by auto
    ultimately show ?thesis
      using True assms(2) by (simp add: ocr_pipeline_defs)
  next
    case False
    with assms(1) have all: "\<forall>k < 2. generateContent e (length (requests s) + k) \<noteq> None"
      by (simp add: detectionCalls_def)
    obtain x where "generateContent e (length (requests s) + 0) = Some x"
      using call_answers [OF all, of 0] by auto
    moreover obtain y where "generateContent e (length (requests s) + 1) = Some y"
      using call_answers [OF all, of 1] by auto
    ultimately show ?thesis
      using False assms(2) by (simp add: ocr_pipeline_defs)
  qed
  then obtain r where r: "history ?s' = r # history s"
    "storage ?s' = (storage s)(ocrHistoryKey \<mapsto> r # history s)"
    by blast
  from r(2) have "storage ?s' historyKey = storage s historyKey"
    using keys_differ by simp
  then have reload: "history (mount e' (storage ?s')) = history (mount e' (storage s))"
    by (simp add: mount_history)
  then have absent: "r \<notin> set (history (mount e' (storage s))) \<longrightarrow>
                     r \<notin> set (history (mount e' (storage ?s')))"
    by simp
  have others: "storage_ok e2 (storageOps u) \<longrightarrow>
      storage (saveTranslation e2 a b c d f g u) =
        (storage u)(historyKey \<mapsto> history (saveTranslation e2 a b c d f g u)) \<and>
      storage (toggleFavorite e2 i u) =
        (storage u)(historyKey \<mapsto> history (toggleFavorite e2 i u)) \<and>
      history (loadHistory e2 u) =
        (case storage u historyKey of None \<Rightarrow> history u | Some h \<Rightarrow> h)"
    by (simp add: saveTranslation_storage toggleFavorite_storage loadHistory_history)
  have later: "storage_ok e2 (storageOps ?s') \<and> storage_ok e' 0 \<longrightarrow>
      history (mount e' (storage (toggleFavorite e2 i ?s'))) = history (toggleFavorite e2 i ?s') \<and>
      map id_h (history (toggleFavorite e2 i ?s')) = id_h r # map id_h (history s) \<and>
      history (mount e' (storage (saveTranslation e2 a b c d f g ?s'))) =
        history (saveTranslation e2 a b c d f g ?s') \<and>
      r \<in> set (history (saveTranslation e2 a b c d f g ?s'))"
  proof (intro impI, elim conjE)
    assume ok: "storage_ok e2 (storageOps ?s')" and ok': "storage_ok e' 0"
    have "map id_h (history (toggleFavorite e2 i ?s')) = id_h r # map id_h (history s)"
      using r(1) by (simp add: toggleFavorite_history o_def)
    moreover have "r \<in> set (history (saveTranslation e2 a b c d f g ?s'))"
      using r(1) by (simp add: saveTranslation_history)
    ultimately show
      "history (mount e' (storage (toggleFavorite e2 i ?s'))) = history (toggleFavorite e2 i ?s') \<and>
       map id_h (history (toggleFavorite e2 i ?s')) = id_h r # map id_h (history s) \<and>
       history (mount e' (storage (saveTranslation e2 a b c d f g ?s'))) =
         history (saveTranslation e2 a b c d f g ?s') \<and>
       r \<in> set (history (saveTranslation e2 a b c d f g ?s'))"
      using ok ok'
      by (simp add: mount_history saveTranslation_storage toggleFavorite_storage)
  qed
  from r(1) r(2) keys_differ reload absent others later show ?thesis
    by (intro exI [of _ r] conjI) assumption+
qed

theorem C10_ocr_record_under_other_key_witness:
  "detectionCalls storedState = 0 \<and>
   map (generateContent (scriptedEnv [Some ''Buenos dias'', Some ''- Be polite''] tickingClock))
     [1, 0] = [Some ''- Be polite'', Some ''Buenos dias''] \<and>
   storage_ok (scriptedEnv [Some ''Buenos dias'', Some ''- Be polite''] tickingClock)
     (storageOps storedState) \<and>
   map transcribedText
     (history (translateExtractedText
        (scriptedEnv [Some ''Buenos dias'', Some ''- Be polite''] tickingClock)
        ''Good morning'' storedState)) = [''Good morning'', ''Hello''] \<and>
   map transcribedText
     (history (mount (scriptedEnv [] tickingClock)
        (storage (translateExtractedText
           (scriptedEnv [Some ''Buenos dias'', Some ''- Be polite''] tickingClock)
           ''Good morning'' storedState)))) = [''Hello'']"
proof -
  let ?e = "scriptedEnv [Some ''Buenos dias'', Some ''- Be polite''] tickingClock"
  let ?s' = "translateExtractedText ?e ''Good morning'' storedState"
  have d: "detectionCalls storedState = 0"
    by (simp add: detectionCalls_def demo_defs)
  have calls: "map (generateContent ?e) [1, 0] = [Some ''- Be polite'', Some ''Buenos dias'']"
    by (simp add: demo_defs)
  have requests0: "length (requests storedState) = 0"
    by (simp add: demo_defs)
  have h1: "\<forall>k < detectionCalls storedState + 2.
              generateContent ?e (length (requests storedState) + k) \<noteq> None"
    using calls by (simp add: d requests0 eval_nat_numeral All_less_Suc)
  have h2: "storage_ok ?e (storageOps storedState)"
    by (simp add: scriptedEnv_def)
  have before: "history storedState = [oldItem]"
    "history (mount (scriptedEnv [] tickingClock) (storage storedState)) = [oldItem]"
    by (simp_all add: demo_defs)
  have old: "transcribedText oldItem = ''Hello''"
    by (simp add: oldItem_def)
  from C10_ocr_record_under_other_key [OF h1 h2, of "''Good morning''" "scriptedEnv [] tickingClock"]
  obtain r where r: "history ?s' = r # history storedState"
    "history (mount (scriptedEnv [] tickingClock) (storage ?s')) =
       history (mount (scriptedEnv [] tickingClock) (storage storedState))"
    by blast
  have "transcribedText r = ''Good morning''"
  proof -
    have "map transcribedText (history ?s') = [''Good morning'', ''Hello'']"
      by (simp add: ocr_pipeline_defs demo_defs string_defs)
    with r(1) show ?thesis by simp
  qed
  with r before old have
    "map transcribedText (history ?s') = [''Good morning'', ''Hello'']"
    "map transcribedText (history (mount (scriptedEnv [] tickingClock) (storage ?s'))) =
       [''Hello'']"
    by simp_all
  with d calls h2 show ?thesis by blast
qed

text \<open>Claim C10 as stated fails for a reload that does not follow directly: after the image
  pipeline has appended the record for \<open>Good morning\<close> the user stars the older record;
  \<open>toggleFavorite\<close> writes the whole history in memory under \<open>@translation_history\<close>, and
  the history loaded when the component is mounted again holds the record of the image
  pipeline.\<close>

theorem C10_star_press_counterexample:
  "map transcribedText (history storedState) = [''Hello''] \<and>
   map transcribedText
     (history (translateExtractedText
        (scriptedEnv [Some ''Buenos dias'', Some ''- Be polite''] tickingClock)
        ''Good morning'' storedState)) = [''Good morning'', ''Hello''] \<and>
   map transcribedText
     (history (mount (scriptedEnv [] tickingClock)
        (storage (toggleFavorite (scriptedEnv [] tickingClock) ''1''
           (translateExtractedText
              (scriptedEnv [Some ''Buenos dias'', Some ''- Be polite''] tickingClock)
              ''Good morning'' storedState))))) = [''Good morning'', ''Hello'']"
  by (simp add: ocr_pipeline_defs toggleFavorite_def demo_defs string_defs)

text \<open>
  Claim C4 at the input where the code departs from it: a record is in the history and in the
  store; \<open>translateExtractedText\<close> succeeds and appends the record for \<open>Good morning\<close>.
  The history that is loaded afterwards, by \<open>loadHistory\<close> or when the component is
  mounted again over the store, begins with the older record, and the appended one is not
  in it.
\<close>

theorem C4_ocr_record_lost_on_load:
  "map transcribedText (history storedState) = [''Hello''] \<and>
   storage storedState historyKey = Some (history storedState) \<and>
   map transcribedText
     (history (translateExtractedText
        (scriptedEnv [Some ''Buenos dias'', Some ''- Be polite''] tickingClock)
        ''Good morning'' storedState)) = [''Good morning'', ''Hello''] \<and>
   map transcribedText
     (history (loadHistory (scriptedEnv [] tickingClock)
        (translateExtractedText
           (scriptedEnv [Some ''Buenos dias'', Some ''- Be polite''] tickingClock)
           ''Good morning'' storedState))) = [''Hello''] \<and>
   map transcribedText
     (history (mount (scriptedEnv [] tickingClock)
        (storage (translateExtractedText
           (scriptedEnv [Some ''Buenos dias'', Some ''- Be polite''] tickingClock)
           ''Good morning'' storedState)))) = [''Hello'']"
  by (simp add: ocr_pipeline_defs demo_defs string_defs)

section \<open>The conversation pipeline\<close>

text \<open>
  Claim C8, as the code has it. In \<open>stopConversationRecording\<close> with AI replies enabled,
  when the audio is available and the transcription and translation calls answer \<open>t1\<close>
  and \<open>t2\<close>, the human turn is appended, and then:
  if the reply call or the call that translates the reply back is rejected, the turn
  sequence is the old one followed by the human turn and nothing else, no alert is shown
  and no speech is scheduled;
  if both calls answer, be it with blank texts, the code does not take that for a failure:
  a turn of the other speaker with the cleaned answers (empty for blank answers) is
  appended after the human turn and its speech is scheduled; no alert is shown.
\<close>

theorem C8_rejected_reply_swallowed:
  assumes "recording s = Some r" and "audioAvailable e r" and "aiConversationMode s"
    and "generateContent e (length (requests s)) = Some t1"
    and "generateContent e (Suc (length (requests s))) = Some t2"
  shows "(generateContent e (length (requests s) + 2) = None \<or>
          generateContent e (length (requests s) + 3) = None \<longrightarrow>
            conversationHistory (stopConversationRecording e s) =
              conversationHistory s @
                [\<lparr>id_c = toString (now e (clockReads s)), text_c = trim t1,
                  translation = trim t2, speaker = activeConversationSpeaker s,
                  timestamp_c = now e (Suc (clockReads s))\<rparr>] \<and>
            alerts (stopConversationRecording e s) = alerts s \<and>
            spoken (stopConversationRecording e s) = spoken s) \<and>
         (generateContent e (length (requests s) + 2) = Some r1 \<and>
          generateContent e (length (requests s) + 3) = Some r2 \<longrightarrow>
            conversationHistory (stopConversationRecording e s) =
              conversationHistory s @
                [\<lparr>id_c = toString (now e (clockReads s)), text_c = trim t1,
                  translation = trim t2, speaker = activeConversationSpeaker s,
                  timestamp_c = now e (Suc (clockReads s))\<rparr>,
                 \<lparr>id_c = toString (now e (clockReads s + 2) + 1),
                  text_c = stripStars (trim r1), translation = stripStars (trim r2),
                  speaker = opposite (activeConversationSpeaker s),
                  timestamp_c = now e (clockReads s + 3) + 1\<rparr>] \<and>
            alerts (stopConversationRecording e s) = alerts s \<and>
            spoken (stopConversationRecording e s) =
              spoken s @
                [(stripStars (trim r1),
                  if activeConversationSpeaker s = A then targetLang_st s
                  else sourceLang_st s)])"
proof -
  from assms(2) obtain uri audio where
    "stopAndUnloadAsync r" "getURI r = Some uri" "uri \<noteq> []" "fetch e uri = Some audio"
    by (rule audioAvailableE)
  with assms(1,3,4,5) show ?thesis
    by (auto simp add: conversation_defs opposite_if numeral_3_eq_3 split: option.splits)
qed

theorem C8_rejected_reply_swallowed_witness:
  "recording voiceState = Some demoRecording \<and>
   audioAvailable (scriptedEnv [Some ''Hello'', Some ''Hola'', Some ''Que tal'', None]
                     tickingClock) demoRecording \<and>
   aiConversationMode voiceState \<and>
   map (generateContent (scriptedEnv [Some ''Hello'', Some ''Hola'', Some ''Que tal'', None]
                           tickingClock)) [0, 1, 3] = [Some ''Hello'', Some ''Hola'', None] \<and>
   map text_c
     (conversationHistory
        (stopConversationRecording
           (scriptedEnv [Some ''Hello'', Some ''Hola'', Some ''Que tal'', None] tickingClock)
           voiceState)) = [''Hello''] \<and>
   alerts (stopConversationRecording
             (scriptedEnv [Some ''Hello'', Some ''Hola'', Some ''Que tal'', None] tickingClock)
             voiceState) = []"
proof -
  let ?e = "scriptedEnv [Some ''Hello'', Some ''Hola'', Some ''Que tal'', None] tickingClock"
  have h1: "recording voiceState = Some demoRecording"
    and h3: "aiConversationMode voiceState"
    by (simp_all add: demo_defs)
  have h2: "audioAvailable ?e demoRecording"
    by (simp add: audioAvailable_def demo_defs)
  have h4: "generateContent ?e (length (requests voiceState)) = Some ''Hello''"
    and h5: "generateContent ?e (Suc (length (requests voiceState))) = Some ''Hola''"
    and h6: "generateContent ?e (length (requests voiceState) + 2) = None \<or>
             generateContent ?e (length (requests voiceState) + 3) = None"
    by (simp_all add: demo_defs)
  have calls: "map (generateContent ?e) [0, 1, 3] = [Some ''Hello'', Some ''Hola'', None]"
    by (simp add: demo_defs)
  have clean: "trim ''Hello'' = ''Hello''"
    by (simp add: string_defs)
  have before: "conversationHistory voiceState = []" "alerts voiceState = []"
    by (simp_all add: demo_defs)
  from C8_rejected_reply_swallowed [OF h1 h2 h3 h4 h5, THEN conjunct1, THEN mp, OF h6]
  have "map text_c (conversationHistory (stopConversationRecording ?e voiceState)) = [''Hello''] \<and>
        alerts (stopConversationRecording ?e voiceState) = []"
    by (simp add: clean before)
  with h1 h2 h3 calls show ?thesis by blast
qed

text \<open>Claim C8 as stated fails when the failure of the reply generation is an empty answer:
  the reply call and the call that translates it back answer with empty texts; a turn of
  speaker \<open>B\<close> with an empty text is appended after the human turn of speaker \<open>A\<close>, and
  its speech is scheduled.\<close>

theorem C8_empty_reply_counterexample:
  "map (generateContent (scriptedEnv [Some ''Hello'', Some ''Hola'', Some [], Some []]
                           tickingClock)) [0, 1, 2, 3] =
     [Some ''Hello'', Some ''Hola'', Some [], Some []] \<and>
   conversationHistory voiceState = [] \<and>
   map (\<lambda>x. (speaker x, text_c x))
     (conversationHistory
        (stopConversationRecording
           (scriptedEnv [Some ''Hello'', Some ''Hola'', Some [], Some []] tickingClock)
           voiceState)) = [(A, ''Hello''), (B, [])] \<and>
   spoken (stopConversationRecording
             (scriptedEnv [Some ''Hello'', Some ''Hola'', Some [], Some []] tickingClock)
             voiceState) = [([], ''es'')]"
  by (simp add: conversation_defs demo_defs string_defs)

text \<open>A successful human turn with AI replies enabled appends the human turn \<open>h\<close> of the
  selected speaker, or \<open>h\<close> and a reply \<open>a\<close> of the other speaker; the mode stays enabled.\<close>

lemma conversationTurn_shape:
  assumes "humanTurnSucceeds e (snd t) s" and "aiConversationMode s"
  shows "\<exists>h. speaker h = fst t \<and> timestamp_c h = now e (clockReads s + 1) \<and>
           aiConversationMode (conversationTurn e t s) \<and>
           ((conversationHistory (conversationTurn e t s) = conversationHistory s @ [h] \<and>
             clockReads (conversationTurn e t s) = clockReads s + 2) \<or>
            (\<exists>a. conversationHistory (conversationTurn e t s) = conversationHistory s @ [h, a] \<and>
                 speaker a = opposite (speaker h) \<and>
                 timestamp_c a = now e (clockReads s + 3) + 1 \<and>
                 clockReads (conversationTurn e t s) = clockReads s + 4))"
proof -
  from assms(1) have av: "audioAvailable e (snd t)"
    and "generateContent e (length (requests s)) \<noteq> None"
    and "generateContent e (Suc (length (requests s))) \<noteq> None"
    by (simp_all add: humanTurnSucceeds_def)
  then obtain t1 t2 where
    calls: "generateContent e (length (requests s)) = Some t1"
      "generateContent e (Suc (length (requests s))) = Some t2"
    by auto
  from av obtain uri audio where
    rec: "stopAndUnloadAsync (snd t)" "getURI (snd t) = Some uri" "uri \<noteq> []"
      "fetch e uri = Some audio"
    by (rule audioAvailableE)
  show ?thesis
  proof (cases "generateContent e (Suc (Suc (length (requests s))))")
    case None
    with rec calls assms(2) show ?thesis
      by (simp add: conversationTurn_def conversation_defs)
  next
    case r1: (Some r1)
    show ?thesis
    proof (cases "generateContent e (Suc (Suc (Suc (length (requests s)))))")
      case None
      with r1 rec calls assms(2) show ?thesis
        by (simp add: conversationTurn_def conversation_defs)
    next
      case (Some r2)
      with r1 rec calls assms(2) show ?thesis
        by (simp add: conversationTurn_def conversation_defs opposite_if numeral_3_eq_3)
    qed
  qed
qed

lemma runConversation_blocks:
  assumes "humanTurnsSucceed e turns s" and "aiConversationMode s"
    and clock: "\<forall>k. now e k + 2 \<le> now e (k + 2)"
  shows "\<exists>blocks.
           conversationHistory (runConversation e turns s) =
             conversationHistory s @ concat blocks \<and>
           length blocks = length turns \<and>
           (\<forall>b \<in> set blocks.
              (\<exists>h. b = [h]) \<or> (\<exists>h a. b = [h, a] \<and> speaker a = opposite (speaker h))) \<and>
           map (\<lambda>b. speaker (hd b)) blocks = map fst turns \<and>
           sorted_wrt (<) (map timestamp_c (concat blocks)) \<and>
           (\<forall>x \<in> set (concat blocks). now e (clockReads s + 1) \<le> timestamp_c x)"
  using assms(1,2)
proof (induction turns arbitrary: s)
  case Nil
  then show ?case by simp
next
  case (Cons t turns)
  let ?s1 = "conversationTurn e t s"
  let ?c = "clockReads s"
  from Cons.prems have ok: "humanTurnSucceeds e (snd t) s"
    and rest: "humanTurnsSucceed e turns ?s1"
    by simp_all
  from conversationTurn_shape [OF ok Cons.prems(2)] obtain h where
    h: "speaker h = fst t" "timestamp_c h = now e (?c + 1)" "aiConversationMode ?s1" and
    shape: "(conversationHistory ?s1 = conversationHistory s @ [h] \<and> clockReads ?s1 = ?c + 2) \<or>
            (\<exists>a. conversationHistory ?s1 = conversationHistory s @ [h, a] \<and>
                 speaker a = opposite (speaker h) \<and>
                 timestamp_c a = now e (?c + 3) + 1 \<and> clockReads ?s1 = ?c + 4)"
    by blast
  from Cons.IH [OF rest h(3)] obtain blocks where
    bl: "conversationHistory (runConversation e turns ?s1) =
           conversationHistory ?s1 @ concat blocks"
      "length blocks = length turns"
      "\<forall>b \<in> set blocks.
         (\<exists>h. b = [h]) \<or> (\<exists>h a. b = [h, a] \<and> speaker a = opposite (speaker h))"
      "map (\<lambda>b. speaker (hd b)) blocks = map fst turns"
      "sorted_wrt (<) (map timestamp_c (concat blocks))"
      "\<forall>x \<in> set (concat blocks). now e (clockReads ?s1 + 1) \<le> timestamp_c x"
    by blast
  have c13: "now e (?c + 1) + 2 \<le> now e (?c + 3)"
    using clock [rule_format, of "?c + 1"] by (simp add: numeral_3_eq_3)
  have c35: "now e (?c + 3) + 2 \<le> now e (?c + 5)"
    using clock [rule_format, of "?c + 3"] by (simp add: numeral_3_eq_3 eval_nat_numeral)
  from shape show ?case
  proof
    assume one: "conversationHistory ?s1 = conversationHistory s @ [h] \<and>
                 clockReads ?s1 = ?c + 2"
    then have lower: "\<forall>x \<in> set (concat blocks). now e (?c + 3) \<le> timestamp_c x"
      using bl(6) by (simp add: numeral_3_eq_3)
    have "conversationHistory (runConversation e (t # turns) s) =
            conversationHistory s @ concat ([h] # blocks)"
      using one bl(1) by simp
    moreover have "length ([h] # blocks) = length (t # turns)"
      using bl(2) by simp
    moreover have "\<forall>b \<in> set ([h] # blocks).
        (\<exists>h. b = [h]) \<or> (\<exists>h a. b = [h, a] \<and> speaker a = opposite (speaker h))"
      using bl(3) by simp
    moreover have "map (\<lambda>b. speaker (hd b)) ([h] # blocks) = map fst (t # turns)"
      using bl(4) h(1) by simp
    moreover have "sorted_wrt (<) (map timestamp_c (concat ([h] # blocks)))"
      using bl(5) lower h(2) c13 by fastforce
    moreover have "\<forall>x \<in> set (concat ([h] # blocks)). now e (?c + 1) \<le> timestamp_c x"
      using lower h(2) c13 by fastforce
    ultimately show ?thesis by blast
  next
    assume "\<exists>a. conversationHistory ?s1 = conversationHistory s @ [h, a] \<and>
                 speaker a = opposite (speaker h) \<and>
                 timestamp_c a = now e (?c + 3) + 1 \<and> clockReads ?s1 = ?c + 4"
    then obtain a where two: "conversationHistory ?s1 = conversationHistory s @ [h, a]"
      "speaker a = opposite (speaker h)" "timestamp_c a = now e (?c + 3) + 1"
      "clockReads ?s1 = ?c + 4"
      by blast
    then have lower: "\<forall>x \<in> set (concat blocks). now e (?c + 5) \<le> timestamp_c x"
      using bl(6) by (simp add: eval_nat_numeral)
    have "conversationHistory (runConversation e (t # turns) s) =
            conversationHistory s @ concat ([h, a] # blocks)"
      using two(1) bl(1) by simp
    moreover have "length ([h, a] # blocks) = length (t # turns)"
      using bl(2) by simp
    moreover have "\<forall>b \<in> set ([h, a] # blocks).
        (\<exists>h. b = [h]) \<or> (\<exists>h a. b = [h, a] \<and> speaker a = opposite (speaker h))"
      using bl(3) two(2) by simp
    moreover have "map (\<lambda>b. speaker (hd b)) ([h, a] # blocks) = map fst (t # turns)"
      using bl(4) h(1) by simp
    moreover have "sorted_wrt (<) (map timestamp_c (concat ([h, a] # blocks)))"
      using bl(5) lower h(2) two(3) c13 c35 by fastforce
    moreover have "\<forall>x \<in> set (concat ([h, a] # blocks)). now e (?c + 1) \<le> timestamp_c x"
      using lower h(2) two(3) c13 c35 by fastforce
    ultimately show ?thesis by blast
  qed
qed

lemma blocks_length:
  "\<forall>b \<in> set blocks. length b = 1 \<or> length b = 2 \<Longrightarrow>
   length blocks \<le> length (concat blocks) \<and> length (concat blocks) \<le> 2 * length blocks"
  by (induction blocks) auto

text \<open>
  Claim C9, as the code has it. Let \<open>N\<close> human turns succeed one after the other with AI
  replies enabled. The turns appended are \<open>N\<close> blocks in order, one for each human turn:
  the human turn of the selected speaker alone, or followed by one reply whose speaker is
  the other one. So between \<open>N\<close> and \<open>2N\<close> turns are appended. The time stamps are read
  from the wall clock (the reply's is the reading plus one): they are strictly increasing
  in sequence order provided that the clock advances by at least 2 ms from any reading to
  the next but one (the readings of one turn are taken together, and a round of calls to
  the model lies between one turn and the next).
\<close>

theorem C9_conversation_turn_order:
  assumes "humanTurnsSucceed e turns s" and "aiConversationMode s"
    and "\<forall>k. now e k + 2 \<le> now e (k + 2)"
  shows "\<exists>blocks.
           conversationHistory (runConversation e turns s) =
             conversationHistory s @ concat blocks \<and>
           length blocks = length turns \<and>
           (\<forall>b \<in> set blocks.
              (\<exists>h. b = [h]) \<or> (\<exists>h a. b = [h, a] \<and> speaker a = opposite (speaker h))) \<and>
           map (\<lambda>b. speaker (hd b)) blocks = map fst turns \<and>
           length turns \<le> length (concat blocks) \<and>
           length (concat blocks) \<le> 2 * length turns \<and>
           sorted_wrt (<) (map timestamp_c (concat blocks))"
proof -
  from runConversation_blocks [OF assms] obtain blocks where
    bl: "conversationHistory (runConversation e turns s) =
           conversationHistory s @ concat blocks"
      "length blocks = length turns"
      "\<forall>b \<in> set blocks.
         (\<exists>h. b = [h]) \<or> (\<exists>h a. b = [h, a] \<and> speaker a = opposite (speaker h))"
      "map (\<lambda>b. speaker (hd b)) blocks = map fst turns"
      "sorted_wrt (<) (map timestamp_c (concat blocks))"
    by blast
  from bl(3) have "\<forall>b \<in> set blocks. length b = 1 \<or> length b = 2"
    by fastforce
  from blocks_length [OF this] bl(2)
  have "length turns \<le> length (concat blocks)" "length (concat blocks) \<le> 2 * length turns"
    by simp_all
  with bl show ?thesis by blast
qed

theorem C9_conversation_turn_order_witness:
  "humanTurnsSucceed
     (scriptedEnv [Some ''Hello'', Some ''Hola'', Some ''Que tal'', Some ''How are you'',
                   Some ''Bien'', Some ''Fine'', None] tickingClock)
     [(A, demoRecording), (B, demoRecording)] freshState \<and>
   aiConversationMode freshState \<and>
   (\<forall>k. tickingClock k + 2 \<le> tickingClock (k + 2)) \<and>
   2 \<le> length (conversationHistory
     (runConversation
        (scriptedEnv [Some ''Hello'', Some ''Hola'', Some ''Que tal'', Some ''How are you'',
                      Some ''Bien'', Some ''Fine'', None] tickingClock)
        [(A, demoRecording), (B, demoRecording)] freshState)) \<and>
   length (conversationHistory
     (runConversation
        (scriptedEnv [Some ''Hello'', Some ''Hola'', Some ''Que tal'', Some ''How are you'',
                      Some ''Bien'', Some ''Fine'', None] tickingClock)
        [(A, demoRecording), (B, demoRecording)] freshState)) \<le> 4 \<and>
   sorted_wrt (<) (map timestamp_c (conversationHistory
     (runConversation
        (scriptedEnv [Some ''Hello'', Some ''Hola'', Some ''Que tal'', Some ''How are you'',
                      Some ''Bien'', Some ''Fine'', None] tickingClock)
        [(A, demoRecording), (B, demoRecording)] freshState)))"
proof -
  let ?e = "scriptedEnv [Some ''Hello'', Some ''Hola'', Some ''Que tal'', Some ''How are you'',
                         Some ''Bien'', Some ''Fine'', None] tickingClock"
  let ?turns = "[(A, demoRecording), (B, demoRecording)]"
  have h1: "humanTurnsSucceed ?e ?turns freshState"
    by (simp add: humanTurnSucceeds_def audioAvailable_def conversationTurn_def
          conversation_defs demo_defs)
  have h2: "aiConversationMode freshState"
    by (simp add: demo_defs)
  have h3: "\<forall>k. tickingClock k + 2 \<le> tickingClock (k + 2)"
    by (simp add: tickingClock_def)
  then have h3': "\<forall>k. now ?e k + 2 \<le> now ?e (k + 2)"
    by (simp add: scriptedEnv_def)
  have empty: "conversationHistory freshState = []"
    by (simp add: demo_defs)
  from C9_conversation_turn_order [OF h1 h2 h3'] obtain blocks where
    "conversationHistory (runConversation ?e ?turns freshState) =
       conversationHistory freshState @ concat blocks"
    "length ?turns \<le> length (concat blocks)"
    "length (concat blocks) \<le> 2 * length ?turns"
    "sorted_wrt (<) (map timestamp_c (concat blocks))"
    by blast
  then have
    "2 \<le> length (conversationHistory (runConversation ?e ?turns freshState))"
    "length (conversationHistory (runConversation ?e ?turns freshState)) \<le> 4"
    "sorted_wrt (<) (map timestamp_c
       (conversationHistory (runConversation ?e ?turns freshState)))"
    by (simp_all add: empty)
  with h1 h2 h3 show ?thesis by blast
qed

text \<open>Claim C9 as stated fails: two human turns succeed, each with its reply, while the
  system clock is set back by one second between them; the time stamps of the four turns
  are not increasing.\<close>

theorem C9_timestamps_counterexample:
  "humanTurnsSucceed
     (scriptedEnv [Some ''Hello'', Some ''Hola'', Some ''Que tal'', Some ''How are you'',
                   Some ''Bien'', Some ''Fine'', Some ''Great'', Some ''Genial''] resetClock)
     [(A, demoRecording), (B, demoRecording)] freshState \<and>
   aiConversationMode freshState \<and>
   map timestamp_c (conversationHistory
     (runConversation
        (scriptedEnv [Some ''Hello'', Some ''Hola'', Some ''Que tal'', Some ''How are you'',
                      Some ''Bien'', Some ''Fine'', Some ''Great'', Some ''Genial''] resetClock)
        [(A, demoRecording), (B, demoRecording)] freshState)) = [5200, 5601, 5000, 5401] \<and>
   \<not> sorted_wrt (<) [5200, 5601, 5000, 5401 :: nat]"
  by (simp add: humanTurnSucceeds_def audioAvailable_def conversationTurn_def
        conversation_defs demo_defs)

end
